theory Spec2Isabelle
  imports Complex_Main
begin

section \<open>additional\_statistics.py: data model\<close>

text \<open>
  The script is glue over three libraries (pandas, networkx, matplotlib/seaborn).  The
  script's own functions \<open>read_data\<close> and \<open>main\<close> are translated statement by
  statement; the library calls they make are modelled by the small definitions below, each
  named after the call it stands for.  Python floats are modelled by \<open>real\<close>, a missing
  value (\<open>np.nan\<close>) by \<open>None\<close>.
\<close>

datatype error = ValueError | FileNotFoundError | KeyError | OSError

text \<open>
  An edge-list file as \<open>pd.read_csv(fname)\<close> returns it: named columns in file order,
  each with its cells (gene symbols).
\<close>

type_synonym frame = "(string \<times> string list) list"

text \<open>
  A count file as \<open>pd.read_csv(fname, index_col=0)\<close> returns it: the sample columns and,
  for every row label of the first column, the numeric cells of that row (\<open>None\<close> is an
  empty cell).  Row labels are unique.
\<close>

record table =
  tab_columns :: "string list"
  tab_rows :: "string \<rightharpoonup> real option list"

text \<open>The files the script reads, by path; a path that is not mapped does not exist.\<close>

record files =
  edge_csv :: "string \<rightharpoonup> frame"
  count_csv :: "string \<rightharpoonup> table"

text \<open>One dict appended to \<open>tmp\<close>: keys type, gene, source, value.\<close>

record stat_record =
  rec_type :: string
  rec_gene :: string
  rec_source :: string
  rec_value :: "real option"

text \<open>
  \<open>pd.DataFrame(tmp)\<close>: the columns are the keys of the dicts in insertion order; an empty
  list of dicts gives a frame without columns.
\<close>

record dataframe =
  df_columns :: "string list"
  df_records :: "stat_record list"

text \<open>A networkx \<open>Graph\<close>: every node mapped to its neighbours (the adjacency dict).\<close>

type_synonym graph = "string \<rightharpoonup> string list"

section \<open>Python and library calls\<close>

text \<open>\<open>s.split(sep)\<close> for a one-character separator.\<close>

fun split :: "char \<Rightarrow> string \<Rightarrow> string list" where
  "split sep [] = [[]]"
| "split sep (c # cs) =
     (if c = sep then [] # split sep cs
      else (case split sep cs of
              [] \<Rightarrow> [[c]]
            | w # ws \<Rightarrow> (c # w) # ws))"

text \<open>\<open>sep.join(xs)\<close>, used to state what \<open>split\<close> inverts.\<close>

fun join :: "char \<Rightarrow> string list \<Rightarrow> string" where
  "join sep [] = []"
| "join sep [x] = x"
| "join sep (x # y # ys) = x @ sep # join sep (y # ys)"

text \<open>
  Line 21: \<open>*_, pathway, gene, study, treatment, deconf_param = dir_.split('/')\<close>.
  The starred target takes all but the last five segments; with fewer than five segments
  the unpacking raises ValueError.
\<close>

definition parse_dir :: "string \<Rightarrow> error + (string \<times> string \<times> string \<times> string \<times> string)" where
  "parse_dir dir =
     (case rev (split CHR ''/'' dir) of
        deconf_param # treatment # study # gene # pathway # _ \<Rightarrow>
          Inr (pathway, gene, study, treatment, deconf_param)
      | _ \<Rightarrow> Inl ValueError)"

text \<open>\<open>pd.read_csv(fname)\<close> and \<open>pd.read_csv(fname, index_col=0)\<close>.\<close>

definition read_csv :: "files \<Rightarrow> string \<Rightarrow> error + frame" where
  "read_csv fs fname =
     (case edge_csv fs fname of None \<Rightarrow> Inl FileNotFoundError | Some df \<Rightarrow> Inr df)"

definition read_csv_index :: "files \<Rightarrow> string \<Rightarrow> error + table" where
  "read_csv_index fs fname =
     (case count_csv fs fname of None \<Rightarrow> Inl FileNotFoundError | Some df \<Rightarrow> Inr df)"

text \<open>\<open>df[col]\<close> on an edge-list frame: KeyError when there is no such column.\<close>

definition getitem :: "frame \<Rightarrow> string \<Rightarrow> error + string list" where
  "getitem df col = (case map_of df col of None \<Rightarrow> Inl KeyError | Some cells \<Rightarrow> Inr cells)"

text \<open>
  \<open>Graph.add_edge(u, v)\<close>: both end points become nodes, and each is entered among the
  neighbours of the other (a dict, so at most once).
\<close>

definition nbrs :: "graph \<Rightarrow> string \<Rightarrow> string list" where
  "nbrs G n = (case G n of None \<Rightarrow> [] | Some ns \<Rightarrow> ns)"

definition add_edge :: "graph \<Rightarrow> string \<times> string \<Rightarrow> graph" where
  "add_edge G e =
     (case e of (u, v) \<Rightarrow>
        (let G1 = G(u \<mapsto> List.insert v (nbrs G u))
         in G1(v \<mapsto> List.insert u (nbrs G1 v))))"

definition add_edges_from :: "graph \<Rightarrow> (string \<times> string) list \<Rightarrow> graph" where
  "add_edges_from G es = foldl add_edge G es"

text \<open>
  \<open>nx.from_pandas_edgelist(df, source, target)\<close> without edge attributes:
  \<open>g.add_edges_from(zip(df[source], df[target]))\<close> on an empty undirected graph.
\<close>

definition from_pandas_edgelist :: "frame \<Rightarrow> string \<Rightarrow> string \<Rightarrow> error + graph" where
  "from_pandas_edgelist df source target =
     (case getitem df source of
        Inl e \<Rightarrow> Inl e
      | Inr us \<Rightarrow>
          (case getitem df target of
             Inl e \<Rightarrow> Inl e
           | Inr vs \<Rightarrow> Inr (add_edges_from Map.empty (zip us vs))))"

text \<open>\<open>g in graph\<close> and \<open>graph.degree[g]\<close> (a self-loop counts twice).\<close>

definition contains :: "graph \<Rightarrow> string \<Rightarrow> bool" where
  "contains G g = (G g \<noteq> None)"

definition degree :: "graph \<Rightarrow> string \<Rightarrow> nat" where
  "degree G g = length (nbrs G g) + (if g \<in> set (nbrs G g) then 1 else 0)"

text \<open>
  \<open>pd.concat([a, b], axis=1)\<close>: the columns of \<open>a\<close> followed by those of \<open>b\<close>, over
  the union of the row labels; a row that one table lacks is filled with missing values.
\<close>

definition concat_axis1 :: "table \<Rightarrow> table \<Rightarrow> table" where
  "concat_axis1 a b =
     \<lparr>tab_columns = tab_columns a @ tab_columns b,
      tab_rows = (\<lambda>l.
        (case tab_rows a l of
           None \<Rightarrow>
             (case tab_rows b l of
                None \<Rightarrow> None
              | Some y \<Rightarrow> Some (replicate (length (tab_columns a)) None @ y))
         | Some x \<Rightarrow>
             (case tab_rows b l of
                None \<Rightarrow> Some (x @ replicate (length (tab_columns b)) None)
              | Some y \<Rightarrow> Some (x @ y))))\<rparr>"

text \<open>\<open>df.loc[g]\<close>: the row labelled \<open>g\<close>, KeyError when no row has that label.\<close>

definition loc :: "table \<Rightarrow> string \<Rightarrow> error + real option list" where
  "loc df g = (case tab_rows df g of None \<Rightarrow> Inl KeyError | Some row \<Rightarrow> Inr row)"

text \<open>
  \<open>Series.mean()\<close> and \<open>Series.std()\<close> with the library's defaults \<open>skipna=True\<close> and
  \<open>ddof=1\<close>: missing cells are dropped first; the mean of no value and the standard
  deviation of fewer than two values are missing.
\<close>

fun dropna :: "real option list \<Rightarrow> real list" where
  "dropna [] = []"
| "dropna (None # cs) = dropna cs"
| "dropna (Some x # cs) = x # dropna cs"

definition mean :: "real option list \<Rightarrow> real option" where
  "mean row =
     (let xs = dropna row
      in if xs = [] then None else Some (sum_list xs / real (length xs)))"

definition std :: "real option list \<Rightarrow> real option" where
  "std row =
     (let xs = dropna row; n = length xs
      in if n < 2 then None
         else (let m = sum_list xs / real n
               in Some (sqrt (sum_list (map (\<lambda>x. (x - m)\<^sup>2) xs) / real (n - 1)))))"

definition DataFrame :: "stat_record list \<Rightarrow> dataframe" where
  "DataFrame tmp =
     \<lparr>df_columns = (if tmp = [] then [] else [''type'', ''gene'', ''source'', ''value'']),
      df_records = tmp\<rparr>"

section \<open>read\_data\<close>

text \<open>
  Lines 35--57, the loop over \<open>gene_list\<close>.  The three dicts are built in order, so the
  two look-ups \<open>df.loc[g]\<close> of lines 48 and 54 are the only places that can raise.
\<close>

fun gene_loop ::
  "graph \<Rightarrow> table \<Rightarrow> string \<Rightarrow> string \<Rightarrow> string \<Rightarrow> string list \<Rightarrow> stat_record list
     \<Rightarrow> error + stat_record list" where
  "gene_loop graph df pathway gene treatment [] tmp = Inr tmp"
| "gene_loop graph df pathway gene treatment (g # gs) tmp =
     (let r1 = \<lparr>rec_type = ''pathway_degree'', rec_gene = gene,
                 rec_source = pathway @ '' -- '' @ g,
                 rec_value = (if contains graph g then Some (real (degree graph g)) else None)\<rparr>
      in case loc df g of
           Inl e \<Rightarrow> Inl e
         | Inr row_mean \<Rightarrow>
             (let r2 = \<lparr>rec_type = ''expression_count_mean'', rec_gene = gene,
                         rec_source = treatment @ '' -- '' @ g,
                         rec_value = mean row_mean\<rparr>
              in case loc df g of
                   Inl e \<Rightarrow> Inl e
                 | Inr row_std \<Rightarrow>
                     (let r3 = \<lparr>rec_type = ''expression_count_std'', rec_gene = gene,
                                 rec_source = treatment @ '' -- '' @ g,
                                 rec_value = std row_std\<rparr>
                      in gene_loop graph df pathway gene treatment gs (tmp @ [r1, r2, r3]))))"

text \<open>Lines 24--32: the three file names, the graph and the concatenated table.\<close>

definition pathway_fname :: "string \<Rightarrow> string" where
  "pathway_fname pathway = ''results/pathways/csv_files/'' @ pathway @ ''.csv''"

definition data_wt_fname :: "string \<Rightarrow> string \<Rightarrow> string" where
  "data_wt_fname study treatment =
     ''resources/data/'' @ study @ ''/Counts_Ctrl_'' @ treatment @ ''.csv''"

definition data_mt_fname :: "string \<Rightarrow> string \<Rightarrow> string \<Rightarrow> string" where
  "data_mt_fname study gene treatment =
     ''resources/data/'' @ study @ ''/Counts_'' @ gene @ ''_'' @ treatment @ ''.csv''"

definition load_graph :: "files \<Rightarrow> string \<Rightarrow> error + graph" where
  "load_graph fs pathway =
     (case read_csv fs (pathway_fname pathway) of
        Inl e \<Rightarrow> Inl e
      | Inr edges \<Rightarrow> from_pandas_edgelist edges ''source'' ''sink'')"

definition load_counts :: "files \<Rightarrow> string \<Rightarrow> string \<Rightarrow> string \<Rightarrow> error + table" where
  "load_counts fs study gene treatment =
     (case read_csv_index fs (data_wt_fname study treatment) of
        Inl e \<Rightarrow> Inl e
      | Inr df_wt \<Rightarrow>
          (case read_csv_index fs (data_mt_fname study gene treatment) of
             Inl e \<Rightarrow> Inl e
           | Inr df_mt \<Rightarrow> Inr (concat_axis1 df_wt df_mt)))"

text \<open>Lines 19--57, the loop over \<open>dir_list\<close>, and line 59.\<close>

fun dir_loop :: "files \<Rightarrow> string list \<Rightarrow> stat_record list \<Rightarrow> error + stat_record list" where
  "dir_loop fs [] tmp = Inr tmp"
| "dir_loop fs (dir # dirs) tmp =
     (case parse_dir dir of
        Inl e \<Rightarrow> Inl e
      | Inr (pathway, gene, study, treatment, deconf_param) \<Rightarrow>
          (let gene_list = split CHR '','' gene
           in case load_graph fs pathway of
                Inl e \<Rightarrow> Inl e
              | Inr graph \<Rightarrow>
                  (case load_counts fs study gene treatment of
                     Inl e \<Rightarrow> Inl e
                   | Inr df \<Rightarrow>
                       (case gene_loop graph df pathway gene treatment gene_list tmp of
                          Inl e \<Rightarrow> Inl e
                        | Inr tmp' \<Rightarrow> dir_loop fs dirs tmp'))))"

definition read_data :: "files \<Rightarrow> string list \<Rightarrow> error + dataframe" where
  "read_data fs dir_list =
     (case dir_loop fs dir_list [] of
        Inl e \<Rightarrow> Inl e
      | Inr tmp \<Rightarrow> Inr (DataFrame tmp))"

section \<open>main\<close>

text \<open>
  \<open>df.to_csv(fname, index=False)\<close>: a header line with the column names, then one line
  per record with the cells of those columns.  With \<open>index=True\<close> an unnamed first
  column would hold the row numbers.
\<close>

datatype cell = S string | F "real option" | I nat

record csv =
  csv_header :: "string list"
  csv_lines :: "cell list list"

definition cell_of :: "stat_record \<Rightarrow> string \<Rightarrow> cell" where
  "cell_of r col =
     (if col = ''type'' then S (rec_type r)
      else if col = ''gene'' then S (rec_gene r)
      else if col = ''source'' then S (rec_source r)
      else F (rec_value r))"

definition to_csv :: "dataframe \<Rightarrow> bool \<Rightarrow> csv" where
  "to_csv df index =
     \<lparr>csv_header = (if index then [[]] else []) @ df_columns df,
      csv_lines =
        map (\<lambda>(i, r). (if index then [I i] else []) @ map (cell_of r) (df_columns df))
          (enumerate 0 (df_records df))\<rparr>"

text \<open>
  What the run leaves behind, in order.  Whether the operating system or the plotting
  library fails at a call is not decided by the script; \<open>env\<close> holds those outcomes.
\<close>

datatype event = Mkdir string | WriteCsv string csv | SaveFig string

record env =
  mkdir_error :: "error option"
  to_csv_error :: "error option"
  savefig_error :: "string \<Rightarrow> error option"

text \<open>
  One plotting stage (lines 71--84, 86--106, 108--128): \<open>df[df['type'] == ...]\<close> raises
  KeyError on a frame without that column; everything else up to \<open>plt.savefig\<close> is the
  plotting library's.
\<close>

definition plot :: "env \<Rightarrow> dataframe \<Rightarrow> string \<Rightarrow> error option" where
  "plot e df path =
     (if ''type'' \<notin> set (df_columns df) then Some KeyError else savefig_error e path)"

definition plot_paths :: "string \<Rightarrow> string list" where
  "plot_paths out_dir =
     [out_dir @ ''/degrees.pdf'', out_dir @ ''/counts_mean.pdf'', out_dir @ ''/counts_std.pdf'']"

fun plot_loop :: "env \<Rightarrow> dataframe \<Rightarrow> string list \<Rightarrow> event list \<Rightarrow> event list \<times> error option" where
  "plot_loop e df [] evs = (evs, None)"
| "plot_loop e df (path # paths) evs =
     (case plot e df path of
        Some err \<Rightarrow> (evs, Some err)
      | None \<Rightarrow> plot_loop e df paths (evs @ [SaveFig path]))"

definition main :: "env \<Rightarrow> files \<Rightarrow> string list \<Rightarrow> string \<Rightarrow> string \<Rightarrow> event list \<times> error option" where
  "main e fs dir_list fname out_dir =
     (case mkdir_error e of
        Some err \<Rightarrow> ([], Some err)
      | None \<Rightarrow>
          (case read_data fs dir_list of
             Inl err \<Rightarrow> ([Mkdir out_dir], Some err)
           | Inr df \<Rightarrow>
               (case to_csv_error e of
                  Some err \<Rightarrow> ([Mkdir out_dir], Some err)
                | None \<Rightarrow>
                    plot_loop e df (plot_paths out_dir)
                      [Mkdir out_dir, WriteCsv fname (to_csv df False)])))"

text \<open>The output files among the events.\<close>

fun written :: "event list \<Rightarrow> event list" where
  "written [] = []"
| "written (Mkdir d # evs) = written evs"
| "written (ev # evs) = ev # written evs"

section \<open>Vocabulary of the statements\<close>

text \<open>The gene symbols of a directory: the gene field split on commas.\<close>

definition gene_symbols :: "string \<Rightarrow> string list" where
  "gene_symbols dir =
     (case parse_dir dir of
        Inl e \<Rightarrow> []
      | Inr (pathway, gene, study, treatment, deconf_param) \<Rightarrow> split CHR '','' gene)"

text \<open>The three records of one gene symbol, given the row its statistics are taken from.\<close>

definition degree_record :: "graph \<Rightarrow> string \<Rightarrow> string \<Rightarrow> string \<Rightarrow> stat_record" where
  "degree_record graph pathway gene g =
     \<lparr>rec_type = ''pathway_degree'', rec_gene = gene, rec_source = pathway @ '' -- '' @ g,
      rec_value = (if contains graph g then Some (real (degree graph g)) else None)\<rparr>"

definition mean_record :: "real option list \<Rightarrow> string \<Rightarrow> string \<Rightarrow> string \<Rightarrow> stat_record" where
  "mean_record row treatment gene g =
     \<lparr>rec_type = ''expression_count_mean'', rec_gene = gene,
      rec_source = treatment @ '' -- '' @ g, rec_value = mean row\<rparr>"

definition std_record :: "real option list \<Rightarrow> string \<Rightarrow> string \<Rightarrow> string \<Rightarrow> stat_record" where
  "std_record row treatment gene g =
     \<lparr>rec_type = ''expression_count_std'', rec_gene = gene,
      rec_source = treatment @ '' -- '' @ g, rec_value = std row\<rparr>"

definition gene_triple ::
  "graph \<Rightarrow> table \<Rightarrow> string \<Rightarrow> string \<Rightarrow> string \<Rightarrow> string \<Rightarrow> stat_record list" where
  "gene_triple graph df pathway gene treatment g =
     (case tab_rows df g of
        None \<Rightarrow> []
      | Some row \<Rightarrow>
          [degree_record graph pathway gene g, mean_record row treatment gene g,
           std_record row treatment gene g])"

text \<open>The records one directory contributes: the loop body run on an empty list.\<close>

definition dir_records :: "files \<Rightarrow> string \<Rightarrow> error + stat_record list" where
  "dir_records fs dir = dir_loop fs [dir] []"

text \<open>An environment in which no call into the operating system or the plotting library fails.\<close>

definition no_failures :: env where
  "no_failures = \<lparr>mkdir_error = None, to_csv_error = None, savefig_error = (\<lambda>path. None)\<rparr>"

text \<open>
  The scenario of the specification: \<open>PathwayA.csv\<close> with the single edge GeneX--GeneY, and
  a control and a mutant count file that each hold the row GeneX = 1, 2, 3.
\<close>

definition scenario_counts :: table where
  "scenario_counts =
     \<lparr>tab_columns = [''a'', ''b'', ''c''],
      tab_rows = [''GeneX'' \<mapsto> [Some 1, Some 2, Some 3]]\<rparr>"

definition scenario_files :: files where
  "scenario_files =
     \<lparr>edge_csv = [''results/pathways/csv_files/PathwayA.csv'' \<mapsto>
                    [(''source'', [''GeneX'']), (''sink'', [''GeneY''])]],
      count_csv = [''resources/data/Study1/Counts_Ctrl_1.csv'' \<mapsto> scenario_counts,
                   ''resources/data/Study1/Counts_GeneX_1.csv'' \<mapsto> scenario_counts]\<rparr>"

definition scenario_dir :: string where
  "scenario_dir = ''x/y/PathwayA/GeneX/Study1/1/z''"

text \<open>
  A second example: a two-gene perturbation.  GeneZ is not in the pathway, has no row in
  the mutant file and only empty cells in the control file; the edge list carries a third
  column.
\<close>

definition example_files :: files where
  "example_files =
     \<lparr>edge_csv = [''results/pathways/csv_files/PathwayA.csv'' \<mapsto>
                    [(''source'', [''GeneX'']), (''sink'', [''GeneY'']), (''weight'', [''7''])]],
      count_csv = [''resources/data/Study2/Counts_Ctrl_2.csv'' \<mapsto>
                     \<lparr>tab_columns = [''a'', ''b''],
                      tab_rows = [''GeneX'' \<mapsto> [Some 1, None], ''GeneZ'' \<mapsto> [None, None]]\<rparr>,
                   ''resources/data/Study2/Counts_GeneX,GeneZ_2.csv'' \<mapsto>
                     \<lparr>tab_columns = [''c''],
                      tab_rows = [''GeneX'' \<mapsto> [Some 3]]\<rparr>]\<rparr>"

definition example_dir :: string where
  "example_dir = ''out/PathwayA/GeneX,GeneZ/Study2/2/0.1''"

definition example_graph :: graph where
  "example_graph = [''GeneX'' \<mapsto> [''GeneY''], ''GeneY'' \<mapsto> [''GeneX'']]"

definition example_counts :: table where
  "example_counts =
     concat_axis1
       \<lparr>tab_columns = [''a'', ''b''],
        tab_rows = [''GeneX'' \<mapsto> [Some 1, None], ''GeneZ'' \<mapsto> [None, None]]\<rparr>
       \<lparr>tab_columns = [''c''], tab_rows = [''GeneX'' \<mapsto> [Some 3]]\<rparr>"

definition example_records :: "stat_record list" where
  "example_records =
     [\<lparr>rec_type = ''pathway_degree'', rec_gene = ''GeneX,GeneZ'',
       rec_source = ''PathwayA -- GeneX'', rec_value = Some 1\<rparr>,
      \<lparr>rec_type = ''expression_count_mean'', rec_gene = ''GeneX,GeneZ'',
       rec_source = ''2 -- GeneX'', rec_value = Some 2\<rparr>,
      \<lparr>rec_type = ''expression_count_std'', rec_gene = ''GeneX,GeneZ'',
       rec_source = ''2 -- GeneX'', rec_value = Some (sqrt 2)\<rparr>,
      \<lparr>rec_type = ''pathway_degree'', rec_gene = ''GeneX,GeneZ'',
       rec_source = ''PathwayA -- GeneZ'', rec_value = None\<rparr>,
      \<lparr>rec_type = ''expression_count_mean'', rec_gene = ''GeneX,GeneZ'',
       rec_source = ''2 -- GeneZ'', rec_value = None\<rparr>,
      \<lparr>rec_type = ''expression_count_std'', rec_gene = ''GeneX,GeneZ'',
       rec_source = ''2 -- GeneZ'', rec_value = None\<rparr>]"

text \<open>
  A third example: the files of the scenario and a mutant file for GeneY that, like the
  control file, has no row for GeneY.
\<close>

definition missing_row_files :: files where
  "missing_row_files =
     \<lparr>edge_csv = [''results/pathways/csv_files/PathwayA.csv'' \<mapsto>
                    [(''source'', [''GeneX'']), (''sink'', [''GeneY''])]],
      count_csv = [''resources/data/Study1/Counts_Ctrl_1.csv'' \<mapsto> scenario_counts,
                   ''resources/data/Study1/Counts_GeneX_1.csv'' \<mapsto> scenario_counts,
                   ''resources/data/Study1/Counts_GeneY_1.csv'' \<mapsto> scenario_counts]\<rparr>"

definition missing_row_dir :: string where
  "missing_row_dir = ''x/y/PathwayA/GeneY/Study1/1/z''"

text \<open>
  A fourth example: the files of the scenario, but the edge list names its second column
  \<open>target\<close>.
\<close>

definition no_sink_files :: files where
  "no_sink_files =
     \<lparr>edge_csv = [''results/pathways/csv_files/PathwayA.csv'' \<mapsto>
                    [(''source'', [''GeneX'']), (''target'', [''GeneY''])]],
      count_csv = [''resources/data/Study1/Counts_Ctrl_1.csv'' \<mapsto> scenario_counts,
                   ''resources/data/Study1/Counts_GeneX_1.csv'' \<mapsto> scenario_counts]\<rparr>"

text \<open>An environment in which the plotting library fails at the second figure.\<close>

definition second_plot_fails :: env where
  "second_plot_fails =
     \<lparr>mkdir_error = None, to_csv_error = None,
      savefig_error = (\<lambda>path. if path = ''plots/counts_mean.pdf'' then Some OSError else None)\<rparr>"

text \<open>The table of the scenario, as \<open>read_data\<close> returns it.\<close>

definition scenario_table :: dataframe where
  "scenario_table =
     \<lparr>df_columns = [''type'', ''gene'', ''source'', ''value''],
      df_records =
        [\<lparr>rec_type = ''pathway_degree'', rec_gene = ''GeneX'',
          rec_source = ''PathwayA -- GeneX'', rec_value = Some 1\<rparr>,
         \<lparr>rec_type = ''expression_count_mean'', rec_gene = ''GeneX'',
          rec_source = ''1 -- GeneX'', rec_value = Some 2\<rparr>,
         \<lparr>rec_type = ''expression_count_std'', rec_gene = ''GeneX'',
          rec_source = ''1 -- GeneX'', rec_value = Some (sqrt (4 / 5))\<rparr>]\<rparr>"

section \<open>Properties of split\<close>

lemma split_not_Nil: "split sep s \<noteq> []"
  by (induction s) (auto split: list.splits)

lemma split_length: "length (split sep s) = Suc (length (filter (\<lambda>c. c = sep) s))"
  by (induction s) (auto split: list.splits simp: split_not_Nil)

lemma split_no_sep: "w \<in> set (split sep s) \<Longrightarrow> sep \<notin> set w"
  by (induction s arbitrary: w) (auto split: list.splits if_splits)

lemma join_split: "join sep (split sep s) = s"
proof (induction s)
  case Nil
  show ?case by simp
next
  case (Cons c cs)
  obtain w ws where sp: "split sep cs = w # ws"
    using split_not_Nil [of sep cs] by (cases "split sep cs") auto
  show ?case
  proof (cases "c = sep")
    case True
    with Cons sp show ?thesis by simp
  next
    case False
    with Cons sp show ?thesis by (cases ws) auto
  qed
qed

lemma split_plain: "sep \<notin> set w \<Longrightarrow> split sep w = [w]"
  by (induction w) auto

lemma split_append_sep:
  "sep \<notin> set w \<Longrightarrow> split sep (w @ sep # s) = w # split sep s"
  by (induction w) auto

lemma split_join:
  "xs \<noteq> [] \<Longrightarrow> \<forall>w \<in> set xs. sep \<notin> set w \<Longrightarrow> split sep (join sep xs) = xs"
proof (induction xs rule: join.induct)
  case (1 sep)
  then show ?case by simp
next
  case (2 sep x)
  then show ?case by (simp add: split_plain)
next
  case (3 sep x y ys)
  then show ?case by (simp add: split_append_sep)
qed

section \<open>The two loops\<close>

lemma gene_loop_eq:
  "gene_loop graph df pathway gene treatment gs tmp =
     (if \<forall>g \<in> set gs. tab_rows df g \<noteq> None
      then Inr (tmp @ concat (map (gene_triple graph df pathway gene treatment) gs))
      else Inl KeyError)"
proof (induction gs arbitrary: tmp)
  case Nil
  show ?case by simp
next
  case (Cons g gs)
  show ?case
  proof (cases "tab_rows df g")
    case None
    then show ?thesis by (simp add: loc_def)
  next
    case (Some row)
    then have gt: "gene_triple graph df pathway gene treatment g =
        [degree_record graph pathway gene g, mean_record row treatment gene g,
         std_record row treatment gene g]"
      by (simp add: gene_triple_def)
    from Some show ?thesis
      by (simp add: loc_def Cons.IH gt degree_record_def mean_record_def std_record_def)
  qed
qed

lemma dir_records_eq:
  "dir_records fs dir =
     (case parse_dir dir of
        Inl e \<Rightarrow> Inl e
      | Inr (pathway, gene, study, treatment, deconf_param) \<Rightarrow>
          (case load_graph fs pathway of
             Inl e \<Rightarrow> Inl e
           | Inr graph \<Rightarrow>
               (case load_counts fs study gene treatment of
                  Inl e \<Rightarrow> Inl e
                | Inr df \<Rightarrow>
                    (if \<forall>g \<in> set (split CHR '','' gene). tab_rows df g \<noteq> None
                     then Inr (concat (map (gene_triple graph df pathway gene treatment)
                                 (split CHR '','' gene)))
                     else Inl KeyError))))"
  by (auto simp add: dir_records_def gene_loop_eq Let_def split: sum.splits prod.splits)

lemma dir_loop_Cons:
  "dir_loop fs (dir # dirs) tmp =
     (case dir_records fs dir of
        Inl e \<Rightarrow> Inl e
      | Inr rs \<Rightarrow> dir_loop fs dirs (tmp @ rs))"
  by (auto simp add: dir_records_def gene_loop_eq Let_def split: sum.splits prod.splits)

lemma dir_loop_append:
  "dir_loop fs (xs @ ys) tmp =
     (case dir_loop fs xs tmp of Inl e \<Rightarrow> Inl e | Inr tmp' \<Rightarrow> dir_loop fs ys tmp')"
proof (induction xs arbitrary: tmp)
  case Nil
  show ?case by simp
next
  case (Cons d xs)
  show ?case
    unfolding append_Cons dir_loop_Cons using Cons.IH by (simp split: sum.splits)
qed

lemma dir_loop_Inr:
  "dir_loop fs dirs tmp = Inr out \<longleftrightarrow>
     (\<exists>rss. list_all2 (\<lambda>dir rs. dir_records fs dir = Inr rs) dirs rss \<and> out = tmp @ concat rss)"
proof (induction dirs arbitrary: tmp)
  case Nil
  show ?case by auto
next
  case (Cons d dirs)
  show ?case
  proof (cases "dir_records fs d")
    case (Inl e)
    then show ?thesis unfolding dir_loop_Cons by (simp add: list_all2_Cons1)
  next
    case (Inr rs)
    then show ?thesis
      unfolding dir_loop_Cons by (auto simp add: Cons.IH list_all2_Cons1)
  qed
qed

section \<open>What one directory and a whole run contribute\<close>

lemma read_data_Inr:
  "read_data fs dir_list = Inr df \<longleftrightarrow>
     (\<exists>tmp. dir_loop fs dir_list [] = Inr tmp \<and> df = DataFrame tmp)"
  by (auto simp add: read_data_def split: sum.splits)

lemma read_data_records:
  "read_data fs dir_list = Inr df \<Longrightarrow>
     \<exists>rss. list_all2 (\<lambda>dir rs. dir_records fs dir = Inr rs) dir_list rss \<and>
           df_records df = concat rss"
  by (auto simp add: read_data_Inr dir_loop_Inr DataFrame_def)

lemma gene_triple_types:
  "\<forall>g \<in> set gs. tab_rows df g \<noteq> None \<Longrightarrow>
     map rec_type (concat (map (gene_triple graph df pathway gene treatment) gs)) =
       concat (replicate (length gs)
         [''pathway_degree'', ''expression_count_mean'', ''expression_count_std''])"
  by (induction gs)
    (auto simp add: gene_triple_def degree_record_def mean_record_def std_record_def)

lemma dir_records_types:
  assumes "dir_records fs dir = Inr rs"
  shows "map rec_type rs =
           concat (replicate (length (gene_symbols dir))
             [''pathway_degree'', ''expression_count_mean'', ''expression_count_std''])"
  using assms
  by (auto simp add: dir_records_eq gene_symbols_def gene_triple_types
      split: sum.splits prod.splits if_splits)

lemma dir_list_types:
  "list_all2 (\<lambda>dir rs. dir_records fs dir = Inr rs) dirs rss \<Longrightarrow>
     map rec_type (concat rss) =
       concat (replicate (\<Sum>dir\<leftarrow>dirs. length (gene_symbols dir))
         [''pathway_degree'', ''expression_count_mean'', ''expression_count_std''])"
proof (induction rule: list_all2_induct)
  case Nil
  show ?case by simp
next
  case (Cons dir dirs rs rss)
  then show ?case by (simp add: dir_records_types replicate_add)
qed

lemma length_concat_replicate: "length (concat (replicate n xs)) = n * length xs"
  by (induction n) auto

section \<open>The events of main\<close>

lemma plot_loop_events:
  "plot_loop e df paths evs = (evs', res) \<Longrightarrow>
     \<exists>k \<le> length paths. evs' = evs @ map SaveFig (take k paths) \<and>
        (res = None \<longleftrightarrow> k = length paths)"
proof (induction paths arbitrary: evs)
  case Nil
  then show ?case by auto
next
  case (Cons path paths)
  show ?case
  proof (cases "plot e df path")
    case None
    with Cons.prems have "plot_loop e df paths (evs @ [SaveFig path]) = (evs', res)"
      by simp
    from Cons.IH [OF this] obtain k where k: "k \<le> length paths"
      "evs' = (evs @ [SaveFig path]) @ map SaveFig (take k paths)"
      "res = None \<longleftrightarrow> k = length paths"
      by blast
    then show ?thesis by (intro exI [of _ "Suc k"]) simp
  next
    case (Some err)
    with Cons.prems have "evs' = evs" "res = Some err" by simp_all
    then show ?thesis by (intro exI [of _ 0]) simp
  qed
qed

lemma length_plot_paths: "length (plot_paths out_dir) = 3"
  by (simp add: plot_paths_def)

lemma main_events:
  assumes "main e fs dir_list fname out_dir = (evs, res)"
  shows "(written evs = [] \<and> res \<noteq> None) \<or>
         (\<exists>df k. read_data fs dir_list = Inr df \<and> k \<le> 3 \<and>
            evs = Mkdir out_dir # WriteCsv fname (to_csv df False) #
                    map SaveFig (take k (plot_paths out_dir)) \<and>
            (res = None \<longleftrightarrow> k = 3))"
proof (cases "mkdir_error e")
  case (Some err)
  with assms have "evs = []" "res = Some err" by (simp_all add: main_def)
  then show ?thesis by simp
next
  case mk: None
  show ?thesis
  proof (cases "read_data fs dir_list")
    case (Inl err)
    with mk assms have "evs = [Mkdir out_dir]" "res = Some err" by (simp_all add: main_def)
    then show ?thesis by simp
  next
    case (Inr df)
    show ?thesis
    proof (cases "to_csv_error e")
      case (Some err)
      with mk Inr assms have "evs = [Mkdir out_dir]" "res = Some err"
        by (simp_all add: main_def)
      then show ?thesis by simp
    next
      case None
      with mk Inr assms have
        "plot_loop e df (plot_paths out_dir)
           [Mkdir out_dir, WriteCsv fname (to_csv df False)] = (evs, res)"
        by (simp add: main_def)
      from plot_loop_events [OF this] obtain k where
        "k \<le> length (plot_paths out_dir)"
        "evs = [Mkdir out_dir, WriteCsv fname (to_csv df False)] @
                 map SaveFig (take k (plot_paths out_dir))"
        "res = None \<longleftrightarrow> k = length (plot_paths out_dir)"
        by blast
      with Inr have "read_data fs dir_list = Inr df \<and> k \<le> 3 \<and>
          evs = Mkdir out_dir # WriteCsv fname (to_csv df False) #
                  map SaveFig (take k (plot_paths out_dir)) \<and>
          (res = None \<longleftrightarrow> k = 3)"
        by (simp add: length_plot_paths)
      then show ?thesis by blast
    qed
  qed
qed

lemma written_SaveFig: "written (map SaveFig ps) = map SaveFig ps"
  by (induction ps) auto

lemma main_WriteCsv:
  assumes "WriteCsv f c \<in> set (fst (main e fs dir_list fname out_dir))"
  shows "f = fname \<and> (\<exists>df. read_data fs dir_list = Inr df \<and> c = to_csv df False)"
proof -
  obtain evs res where m: "main e fs dir_list fname out_dir = (evs, res)"
    by (cases "main e fs dir_list fname out_dir")
  have no: "written evs = [] \<Longrightarrow> WriteCsv f c \<notin> set evs" for evs
    by (induction evs rule: written.induct) auto
  from main_events [OF m] assms m no [of evs] show ?thesis
    by (auto dest: in_set_takeD)
qed

lemma to_csv_lines: "length (csv_lines (to_csv df index)) = length (df_records df)"
  by (simp add: to_csv_def)

section \<open>The two examples, evaluated\<close>

lemma example_parse:
  "parse_dir example_dir = Inr (''PathwayA'', ''GeneX,GeneZ'', ''Study2'', ''2'', ''0.1'')"
  by (simp add: parse_dir_def example_dir_def)

lemma example_gene_symbols: "gene_symbols example_dir = [''GeneX'', ''GeneZ'']"
  by (simp add: gene_symbols_def example_parse)

lemma example_load_graph: "load_graph example_files ''PathwayA'' = Inr example_graph"
  by (simp add: load_graph_def read_csv_def example_files_def pathway_fname_def
      from_pandas_edgelist_def getitem_def add_edges_from_def add_edge_def nbrs_def
      example_graph_def)

lemma example_load_counts:
  "load_counts example_files ''Study2'' ''GeneX,GeneZ'' ''2'' = Inr example_counts"
  by (simp add: load_counts_def read_csv_index_def example_files_def data_wt_fname_def
      data_mt_fname_def example_counts_def)

lemma example_rows:
  "tab_rows example_counts ''GeneX'' = Some [Some 1, None, Some 3]"
  "tab_rows example_counts ''GeneZ'' = Some [None, None, None]"
  by (simp_all add: example_counts_def concat_axis1_def)

lemma example_dir_records: "dir_records example_files example_dir = Inr example_records"
  by (simp add: dir_records_eq example_parse example_load_graph example_load_counts
      example_rows gene_triple_def degree_record_def mean_record_def std_record_def
      contains_def degree_def nbrs_def example_graph_def mean_def std_def example_records_def)

lemma example_read_data:
  "read_data example_files [example_dir] = Inr (DataFrame example_records)"
  using example_dir_records by (simp add: read_data_def dir_loop_Cons del: dir_loop.simps(2))

section \<open>Where each record comes from\<close>

lemma concat_mem_split: "x \<in> set xs \<Longrightarrow> \<exists>pre post. concat xs = pre @ x @ post"
proof -
  assume "x \<in> set xs"
  then obtain a b where "xs = a @ x # b" by (auto simp add: in_set_conv_decomp)
  then have "concat xs = concat a @ x @ concat b" by simp
  then show ?thesis by blast
qed

lemma concat_map_mem_split:
  "x \<in> set xs \<Longrightarrow> \<exists>pre post. concat (map f xs) = pre @ f x @ post"
  using concat_mem_split [of "f x" "map f xs"] by auto

lemma list_all2_mem1:
  "list_all2 P xs ys \<Longrightarrow> x \<in> set xs \<Longrightarrow> \<exists>y \<in> set ys. P x y"
  by (induction rule: list_all2_induct) auto

lemma list_all2_mem2:
  "list_all2 P xs ys \<Longrightarrow> y \<in> set ys \<Longrightarrow> \<exists>x \<in> set xs. P x y"
  by (induction rule: list_all2_induct) auto

lemma dir_records_gene_triple:
  assumes "dir_records fs dir = Inr rs"
    and "parse_dir dir = Inr (pathway, gene, study, treatment, deconf_param)"
    and "g \<in> set (split CHR '','' gene)"
  shows "\<exists>graph counts row pre post.
           load_graph fs pathway = Inr graph \<and>
           load_counts fs study gene treatment = Inr counts \<and>
           tab_rows counts g = Some row \<and>
           rs = pre @ [degree_record graph pathway gene g, mean_record row treatment gene g,
                       std_record row treatment gene g] @ post"
proof -
  from assms(1,2) obtain graph counts where
    lg: "load_graph fs pathway = Inr graph" and
    lc: "load_counts fs study gene treatment = Inr counts" and
    all: "\<forall>g \<in> set (split CHR '','' gene). tab_rows counts g \<noteq> None" and
    rs: "rs = concat (map (gene_triple graph counts pathway gene treatment)
                  (split CHR '','' gene))"
    by (auto simp add: dir_records_eq split: sum.splits if_splits)
  from all assms(3) obtain row where row: "tab_rows counts g = Some row" by auto
  from concat_map_mem_split [OF assms(3)] obtain pre post where
    "concat (map (gene_triple graph counts pathway gene treatment) (split CHR '','' gene)) =
       pre @ gene_triple graph counts pathway gene treatment g @ post"
    by blast
  with rs row have "rs = pre @ [degree_record graph pathway gene g,
      mean_record row treatment gene g, std_record row treatment gene g] @ post"
    by (simp add: gene_triple_def)
  with lg lc row show ?thesis by blast
qed

lemma read_data_gene_triple:
  assumes "read_data fs dir_list = Inr df"
    and "dir \<in> set dir_list"
    and "parse_dir dir = Inr (pathway, gene, study, treatment, deconf_param)"
    and "g \<in> set (split CHR '','' gene)"
  shows "\<exists>graph counts row pre post.
           load_graph fs pathway = Inr graph \<and>
           load_counts fs study gene treatment = Inr counts \<and>
           tab_rows counts g = Some row \<and>
           df_records df =
             pre @ [degree_record graph pathway gene g, mean_record row treatment gene g,
                    std_record row treatment gene g] @ post"
proof -
  from read_data_records [OF assms(1)] obtain rss where
    rss: "list_all2 (\<lambda>dir rs. dir_records fs dir = Inr rs) dir_list rss"
    and recs: "df_records df = concat rss"
    by blast
  from list_all2_mem1 [OF rss assms(2)] obtain rs where
    rs: "rs \<in> set rss" "dir_records fs dir = Inr rs" by blast
  from dir_records_gene_triple [OF rs(2) assms(3,4)] obtain graph counts row pre post where
    g: "load_graph fs pathway = Inr graph" "load_counts fs study gene treatment = Inr counts"
       "tab_rows counts g = Some row"
       "rs = pre @ [degree_record graph pathway gene g, mean_record row treatment gene g,
                    std_record row treatment gene g] @ post"
    by blast
  from concat_mem_split [OF rs(1)] obtain pre' post' where
    "concat rss = pre' @ rs @ post'" by blast
  with recs g(4) have "df_records df =
      (pre' @ pre) @ [degree_record graph pathway gene g, mean_record row treatment gene g,
                       std_record row treatment gene g] @ (post @ post')"
    by simp
  with g(1,2,3) show ?thesis by blast
qed

lemma dir_records_origin:
  assumes "dir_records fs dir = Inr rs" and "r \<in> set rs"
  shows "\<exists>pathway gene study treatment deconf_param graph counts g row.
           parse_dir dir = Inr (pathway, gene, study, treatment, deconf_param) \<and>
           load_graph fs pathway = Inr graph \<and>
           load_counts fs study gene treatment = Inr counts \<and>
           g \<in> set (split CHR '','' gene) \<and> tab_rows counts g = Some row \<and>
           (r = degree_record graph pathway gene g \<or> r = mean_record row treatment gene g \<or>
            r = std_record row treatment gene g)"
proof -
  from assms(1) obtain pathway gene study treatment deconf_param graph counts where
    pd: "parse_dir dir = Inr (pathway, gene, study, treatment, deconf_param)" and
    lg: "load_graph fs pathway = Inr graph" and
    lc: "load_counts fs study gene treatment = Inr counts" and
    rs: "rs = concat (map (gene_triple graph counts pathway gene treatment)
                  (split CHR '','' gene))"
    by (auto simp add: dir_records_eq split: sum.splits if_splits)
  from assms(2) rs obtain g where
    g: "g \<in> set (split CHR '','' gene)"
       "r \<in> set (gene_triple graph counts pathway gene treatment g)"
    by auto
  then obtain row where row: "tab_rows counts g = Some row"
    by (cases "tab_rows counts g") (auto simp add: gene_triple_def)
  with g(2) have "r = degree_record graph pathway gene g \<or>
      r = mean_record row treatment gene g \<or> r = std_record row treatment gene g"
    by (auto simp add: gene_triple_def)
  with pd lg lc g(1) row show ?thesis by blast
qed

lemma read_data_origin:
  assumes "read_data fs dir_list = Inr df" and "r \<in> set (df_records df)"
  shows "\<exists>dir \<in> set dir_list. \<exists>pathway gene study treatment deconf_param graph counts g row.
           parse_dir dir = Inr (pathway, gene, study, treatment, deconf_param) \<and>
           load_graph fs pathway = Inr graph \<and>
           load_counts fs study gene treatment = Inr counts \<and>
           g \<in> set (split CHR '','' gene) \<and> tab_rows counts g = Some row \<and>
           (r = degree_record graph pathway gene g \<or> r = mean_record row treatment gene g \<or>
            r = std_record row treatment gene g)"
proof -
  from read_data_records [OF assms(1)] obtain rss where
    rss: "list_all2 (\<lambda>dir rs. dir_records fs dir = Inr rs) dir_list rss"
    and recs: "df_records df = concat rss"
    by blast
  from assms(2) recs obtain rs where rs: "rs \<in> set rss" "r \<in> set rs" by auto
  from list_all2_mem2 [OF rss rs(1)] obtain dir where
    dir: "dir \<in> set dir_list" "dir_records fs dir = Inr rs" by blast
  from dir_records_origin [OF dir(2) rs(2)] dir(1) show ?thesis by blast
qed

section \<open>Rows of the concatenated table\<close>

lemma dropna_filter: "map Some (dropna row) = filter (\<lambda>c. c \<noteq> None) row"
  by (induction row rule: dropna.induct) auto

lemma load_counts_Inr:
  "load_counts fs study gene treatment = Inr counts \<longleftrightarrow>
     (\<exists>wt mt. count_csv fs (data_wt_fname study treatment) = Some wt \<and>
        count_csv fs (data_mt_fname study gene treatment) = Some mt \<and>
        counts = concat_axis1 wt mt)"
  by (auto simp add: load_counts_def read_csv_index_def split: option.splits)

lemma concat_axis1_row:
  "tab_rows (concat_axis1 a b) l = Some row \<Longrightarrow>
     row = (case tab_rows a l of None \<Rightarrow> replicate (length (tab_columns a)) None | Some x \<Rightarrow> x) @
           (case tab_rows b l of None \<Rightarrow> replicate (length (tab_columns b)) None | Some y \<Rightarrow> y)"
  by (auto simp add: concat_axis1_def split: option.splits)

section \<open>The example with a missing row, evaluated\<close>

lemma missing_row_parse:
  "parse_dir missing_row_dir = Inr (''PathwayA'', ''GeneY'', ''Study1'', ''1'', ''z'')"
  "parse_dir scenario_dir = Inr (''PathwayA'', ''GeneX'', ''Study1'', ''1'', ''z'')"
  by (simp_all add: parse_dir_def missing_row_dir_def scenario_dir_def)

lemma missing_row_load_graph:
  "load_graph missing_row_files ''PathwayA'' = Inr example_graph"
  by (simp add: load_graph_def read_csv_def missing_row_files_def pathway_fname_def
      from_pandas_edgelist_def getitem_def add_edges_from_def add_edge_def nbrs_def
      example_graph_def)

lemma missing_row_load_counts:
  "load_counts missing_row_files ''Study1'' ''GeneY'' ''1'' =
     Inr (concat_axis1 scenario_counts scenario_counts)"
  "load_counts missing_row_files ''Study1'' ''GeneX'' ''1'' =
     Inr (concat_axis1 scenario_counts scenario_counts)"
  by (simp_all add: load_counts_def read_csv_index_def missing_row_files_def data_wt_fname_def
      data_mt_fname_def)

lemma missing_row_rows:
  "tab_rows (concat_axis1 scenario_counts scenario_counts) ''GeneY'' = None"
  "tab_rows (concat_axis1 scenario_counts scenario_counts) ''GeneX'' =
     Some [Some 1, Some 2, Some 3, Some 1, Some 2, Some 3]"
  by (simp_all add: concat_axis1_def scenario_counts_def)

lemma missing_row_before:
  "\<exists>df. read_data missing_row_files [scenario_dir] = Inr df"
  by (simp add: read_data_def dir_loop_Cons dir_records_eq missing_row_parse
      missing_row_load_graph missing_row_load_counts missing_row_rows del: dir_loop.simps(2))

section \<open>Parsing a directory\<close>

lemma unpack_short:
  "length segs < 5 \<Longrightarrow>
     (case segs of
        deconf_param # treatment # study # gene # pathway # front \<Rightarrow>
          Inr (pathway, gene, study, treatment, deconf_param)
      | _ \<Rightarrow> Inl ValueError) = Inl ValueError"
  by (auto split: list.splits)

lemma parse_dir_short: "length (split CHR ''/'' dir) < 5 \<Longrightarrow> parse_dir dir = Inl ValueError"
  unfolding parse_dir_def by (rule unpack_short) simp

lemma parse_dir_long:
  "split CHR ''/'' dir = front @ [pathway, gene, study, treatment, deconf_param] \<Longrightarrow>
     parse_dir dir = Inr (pathway, gene, study, treatment, deconf_param)"
  by (simp add: parse_dir_def)

lemma dir_records_short:
  "length (split CHR ''/'' dir) < 5 \<Longrightarrow> dir_records fs dir = Inl ValueError"
  by (simp add: dir_records_eq parse_dir_short)

section \<open>The edge list\<close>

lemma getitem_absent: "col \<notin> fst ` set df \<Longrightarrow> getitem df col = Inl KeyError"
  by (simp add: getitem_def map_of_eq_None_iff [THEN iffD2])

lemma from_pandas_edgelist_absent:
  assumes "source \<notin> fst ` set df \<or> target \<notin> fst ` set df"
  shows "from_pandas_edgelist df source target = Inl KeyError"
proof (cases "getitem df source")
  case (Inl e)
  then have "e = KeyError" by (simp add: getitem_def split: option.splits)
  with Inl show ?thesis by (simp add: from_pandas_edgelist_def)
next
  case (Inr us)
  then have "source \<in> fst ` set df"
    by (auto simp add: getitem_def split: option.splits dest!: map_of_SomeD
        intro: rev_image_eqI)
  with assms have "getitem df target = Inl KeyError" by (simp add: getitem_absent)
  with Inr show ?thesis by (simp add: from_pandas_edgelist_def)
qed

lemma from_pandas_edgelist_cong:
  "map_of df source = map_of df' source \<Longrightarrow> map_of df target = map_of df' target \<Longrightarrow>
     from_pandas_edgelist df source target = from_pandas_edgelist df' source target"
  by (simp add: from_pandas_edgelist_def getitem_def cong: sum.case_cong option.case_cong)

lemma dir_loop_cong:
  assumes "\<And>dir. dir_records fs dir = dir_records fs' dir"
  shows "dir_loop fs dirs tmp = dir_loop fs' dirs tmp"
proof (induction dirs arbitrary: tmp)
  case Nil
  show ?case by simp
next
  case (Cons d dirs)
  show ?case unfolding dir_loop_Cons assms [of d] using Cons.IH by (simp split: sum.splits)
qed

lemma read_data_Nil: "read_data fs [] = Inr (DataFrame [])"
  by (simp add: read_data_def)

lemma no_sink_edges:
  "edge_csv no_sink_files (pathway_fname ''PathwayA'') =
     Some [(''source'', [''GeneX'']), (''target'', [''GeneY''])]"
  by (simp add: no_sink_files_def pathway_fname_def)

section \<open>The scenario of the specification, evaluated\<close>

lemma scenario_split: "split CHR '','' ''GeneX'' = [''GeneX'']"
  by simp

lemma scenario_stats:
  "mean [Some 1, Some 2, Some 3, Some 1, Some 2, Some 3] = Some 2"
  "std [Some 1, Some 2, Some 3, Some 1, Some 2, Some 3] = Some (sqrt (4 / 5))"
  by (simp_all add: mean_def std_def)

lemma scenario_degree:
  "contains example_graph ''GeneX''" "degree example_graph ''GeneX'' = 1"
  by (simp_all add: contains_def degree_def nbrs_def example_graph_def)

lemma scenario_load_graph: "load_graph scenario_files ''PathwayA'' = Inr example_graph"
  by (simp add: load_graph_def read_csv_def scenario_files_def pathway_fname_def
      from_pandas_edgelist_def getitem_def add_edges_from_def add_edge_def nbrs_def
      example_graph_def)

lemma scenario_load_counts:
  "load_counts scenario_files ''Study1'' ''GeneX'' ''1'' =
     Inr (concat_axis1 scenario_counts scenario_counts)"
  by (simp add: load_counts_def read_csv_index_def scenario_files_def data_wt_fname_def
      data_mt_fname_def)

lemma scenario_read_data:
  "read_data scenario_files [''x/y/PathwayA/GeneX/Study1/1/z''] =
     Inr \<lparr>df_columns = [''type'', ''gene'', ''source'', ''value''],
          df_records =
            [\<lparr>rec_type = ''pathway_degree'', rec_gene = ''GeneX'',
              rec_source = ''PathwayA -- GeneX'', rec_value = Some 1\<rparr>,
             \<lparr>rec_type = ''expression_count_mean'', rec_gene = ''GeneX'',
              rec_source = ''1 -- GeneX'', rec_value = Some 2\<rparr>,
             \<lparr>rec_type = ''expression_count_std'', rec_gene = ''GeneX'',
              rec_source = ''1 -- GeneX'', rec_value = Some (sqrt (4 / 5))\<rparr>]\<rparr>"
proof -
  have "dir_records scenario_files ''x/y/PathwayA/GeneX/Study1/1/z'' =
      Inr [\<lparr>rec_type = ''pathway_degree'', rec_gene = ''GeneX'',
              rec_source = ''PathwayA -- GeneX'', rec_value = Some 1\<rparr>,
             \<lparr>rec_type = ''expression_count_mean'', rec_gene = ''GeneX'',
              rec_source = ''1 -- GeneX'', rec_value = Some 2\<rparr>,
             \<lparr>rec_type = ''expression_count_std'', rec_gene = ''GeneX'',
              rec_source = ''1 -- GeneX'', rec_value = Some (sqrt (4 / 5))\<rparr>]"
    using missing_row_parse(2)
    by (simp add: dir_records_eq scenario_dir_def scenario_load_graph scenario_load_counts
        scenario_split missing_row_rows gene_triple_def degree_record_def mean_record_def
        std_record_def scenario_degree scenario_stats del: split.simps)
  then show ?thesis
    by (simp add: read_data_def dir_loop_Cons DataFrame_def del: dir_loop.simps(2))
qed

section \<open>The CSV file\<close>

lemma map_enumerate_snd: "map (\<lambda>(i, r). f r) (enumerate n xs) = map f xs"
  by (induction xs arbitrary: n) auto

lemma to_csv_no_index:
  "to_csv df False =
     \<lparr>csv_header = df_columns df,
      csv_lines = map (\<lambda>r. map (cell_of r) (df_columns df)) (df_records df)\<rparr>"
  by (simp add: to_csv_def map_enumerate_snd)

lemma read_data_nonempty:
  assumes "dir_list \<noteq> []" and "read_data fs dir_list = Inr df"
  shows "df_records df \<noteq> []" and "df_columns df = [''type'', ''gene'', ''source'', ''value'']"
proof -
  from assms(1) obtain dir where dir: "dir \<in> set dir_list" by (cases dir_list) auto
  from read_data_records [OF assms(2)] obtain rss where
    rss: "list_all2 (\<lambda>dir rs. dir_records fs dir = Inr rs) dir_list rss"
    and recs: "df_records df = concat rss"
    by blast
  from list_all2_mem1 [OF rss dir] obtain rs where
    rs: "rs \<in> set rss" "dir_records fs dir = Inr rs" by blast
  from rs(2) obtain pathway gene study treatment deconf_param where
    pd: "parse_dir dir = Inr (pathway, gene, study, treatment, deconf_param)"
    by (auto simp add: dir_records_eq split: sum.splits)
  obtain g where g: "g \<in> set (split CHR '','' gene)"
    using split_not_Nil [of "CHR '',''" gene] by (cases "split CHR '','' gene") auto
  from dir_records_gene_triple [OF rs(2) pd g] have "rs \<noteq> []" by auto
  with rs(1) recs show ne: "df_records df \<noteq> []" by auto
  from assms(2) obtain tmp where "df = DataFrame tmp" by (auto simp add: read_data_Inr)
  with ne show "df_columns df = [''type'', ''gene'', ''source'', ''value'']"
    by (simp add: DataFrame_def)
qed

lemma to_csv_four_columns:
  assumes "df_columns df = [''type'', ''gene'', ''source'', ''value'']"
  shows "to_csv df False =
     \<lparr>csv_header = [''type'', ''gene'', ''source'', ''value''],
      csv_lines = map (\<lambda>r. [S (rec_type r), S (rec_gene r), S (rec_source r), F (rec_value r)])
                    (df_records df)\<rparr>"
  by (simp add: to_csv_no_index assms cell_of_def)

lemma main_no_dirs:
  "main no_failures fs [] fname out_dir =
     ([Mkdir out_dir, WriteCsv fname \<lparr>csv_header = [], csv_lines = []\<rparr>], Some KeyError)"
  by (simp add: main_def no_failures_def read_data_def DataFrame_def to_csv_def plot_paths_def
      plot_def)

lemma plot_loop_keeps:
  "plot_loop e df paths evs = (evs', res) \<Longrightarrow> set evs \<subseteq> set evs'"
  by (auto dest!: plot_loop_events)

lemma scenario_read_data_table:
  "read_data scenario_files [scenario_dir] = Inr scenario_table"
  using scenario_read_data by (simp add: scenario_dir_def scenario_table_def)

lemma scenario_main:
  "main no_failures scenario_files [scenario_dir] ''out.csv'' ''plots'' =
     ([Mkdir ''plots'', WriteCsv ''out.csv'' (to_csv scenario_table False),
       SaveFig ''plots/degrees.pdf'', SaveFig ''plots/counts_mean.pdf'',
       SaveFig ''plots/counts_std.pdf''], None)"
  by (simp add: main_def no_failures_def scenario_read_data_table plot_paths_def plot_def
      scenario_table_def)

section \<open>Partial output\<close>

lemma main_mkdir_fails:
  "main \<lparr>mkdir_error = Some OSError, to_csv_error = None, savefig_error = (\<lambda>path. None)\<rparr>
     fs dir_list fname out_dir = ([], Some OSError)"
  by (simp add: main_def)

lemma main_first_plots:
  assumes "read_data fs dir_list = Inr df" and "''type'' \<in> set (df_columns df)" and "k \<le> 3"
  shows "main \<lparr>mkdir_error = None, to_csv_error = None,
                savefig_error = (\<lambda>path. if path \<in> set (take k (plot_paths out_dir)) then None
                                        else Some OSError)\<rparr>
           fs dir_list fname out_dir =
         (Mkdir out_dir # WriteCsv fname (to_csv df False) #
            map SaveFig (take k (plot_paths out_dir)),
          if k = 3 then None else Some OSError)"
proof -
  from assms(3) consider "k = 0" | "k = 1" | "k = 2" | "k = 3" by linarith
  then show ?thesis
  proof cases
    case 1
    with assms(1,2) show ?thesis by (simp add: main_def plot_paths_def plot_def)
  next
    case 2
    with assms(1,2) show ?thesis by (simp add: main_def plot_paths_def plot_def)
  next
    case 3
    with assms(1,2) show ?thesis
      by (simp add: main_def plot_paths_def plot_def numeral_2_eq_2)
  next
    case 4
    with assms(1,2) show ?thesis by (simp add: main_def plot_paths_def plot_def)
  qed
qed

lemma second_plot_fails_main:
  "main second_plot_fails scenario_files [scenario_dir] ''out.csv'' ''plots'' =
     ([Mkdir ''plots'', WriteCsv ''out.csv'' (to_csv scenario_table False),
       SaveFig ''plots/degrees.pdf''], Some OSError)"
  by (simp add: main_def second_plot_fails_def scenario_read_data_table plot_paths_def plot_def
      scenario_table_def)

section \<open>The pathway graph\<close>

lemma contains_add_edge:
  "contains (add_edge G (u, v)) g \<longleftrightarrow> contains G g \<or> g = u \<or> g = v"
  by (auto simp add: contains_def add_edge_def Let_def)

lemma nbrs_add_edge:
  "set (nbrs (add_edge G (u, v)) g) =
     set (nbrs G g) \<union> (if g = u then {v} else {}) \<union> (if g = v then {u} else {})"
  by (auto simp add: nbrs_def add_edge_def Let_def split: option.splits)

lemma distinct_add_edge:
  "distinct (nbrs G g) \<Longrightarrow> distinct (nbrs (add_edge G (u, v)) g)"
  by (auto simp add: nbrs_def add_edge_def Let_def split: option.splits)

lemma add_edges_from_graph:
  "(contains (add_edges_from G es) g \<longleftrightarrow>
      contains G g \<or> g \<in> fst ` set es \<or> g \<in> snd ` set es) \<and>
   set (nbrs (add_edges_from G es) g) =
     set (nbrs G g) \<union> {v. (g, v) \<in> set es \<or> (v, g) \<in> set es} \<and>
   (distinct (nbrs G g) \<longrightarrow> distinct (nbrs (add_edges_from G es) g))"
  unfolding add_edges_from_def
proof (induction es arbitrary: G)
  case Nil
  show ?case by simp
next
  case (Cons e es)
  obtain u v where e: "e = (u, v)" by (cases e)
  show ?case
    unfolding foldl_Cons e
    using Cons.IH [of "add_edge G (u, v)"]
    by (auto simp add: contains_add_edge nbrs_add_edge distinct_add_edge split: if_splits)
qed

lemma degree_add_edges_from:
  "degree (add_edges_from Map.empty es) g =
     card {v. (g, v) \<in> set es \<or> (v, g) \<in> set es} + (if (g, g) \<in> set es then 1 else 0)"
proof -
  let ?G = "add_edges_from Map.empty es"
  from add_edges_from_graph [of Map.empty es g] have
    s: "set (nbrs ?G g) = {v. (g, v) \<in> set es \<or> (v, g) \<in> set es}" and
    d: "distinct (nbrs ?G g)"
    by (simp_all add: nbrs_def)
  from d have "length (nbrs ?G g) = card (set (nbrs ?G g))" by (simp add: distinct_card)
  with s show ?thesis by (simp add: degree_def)
qed

lemma contains_add_edges_from:
  "contains (add_edges_from Map.empty es) g \<longleftrightarrow> g \<in> fst ` set es \<or> g \<in> snd ` set es"
  using add_edges_from_graph [of Map.empty es g] by (simp add: contains_def)

lemma load_graph_Inr:
  "load_graph fs pathway = Inr graph \<longleftrightarrow>
     (\<exists>edges us vs. edge_csv fs (pathway_fname pathway) = Some edges \<and>
        map_of edges ''source'' = Some us \<and> map_of edges ''sink'' = Some vs \<and>
        graph = add_edges_from Map.empty (zip us vs))"
  by (auto simp add: load_graph_def read_csv_def from_pandas_edgelist_def getitem_def
      split: option.splits)

section \<open>Claims\<close>

text \<open>
  C1.  Whenever \<open>read_data\<close> returns a table, the table holds exactly three records per
  gene symbol per directory, of types pathway\_degree, expression\_count\_mean and
  expression\_count\_std in that order; so it has 3 times as many records as there are
  comma-separated gene symbols in the gene fields of all input directories.  The CSV that
  \<open>main\<close> writes has one line per record, hence the same count.
\<close>

theorem read_data_three_records_per_gene:
  assumes "read_data fs dir_list = Inr df"
  shows "length (df_records df) = 3 * (\<Sum>dir\<leftarrow>dir_list. length (gene_symbols dir)) \<and>
         map rec_type (df_records df) =
           concat (replicate (\<Sum>dir\<leftarrow>dir_list. length (gene_symbols dir))
             [''pathway_degree'', ''expression_count_mean'', ''expression_count_std'']) \<and>
         (\<forall>e fname out_dir f c.
            WriteCsv f c \<in> set (fst (main e fs dir_list fname out_dir)) \<longrightarrow>
            length (csv_lines c) = 3 * (\<Sum>dir\<leftarrow>dir_list. length (gene_symbols dir)))"
proof -
  let ?n = "\<Sum>dir\<leftarrow>dir_list. length (gene_symbols dir)"
  from read_data_records [OF assms] obtain rss where
    rss: "list_all2 (\<lambda>dir rs. dir_records fs dir = Inr rs) dir_list rss"
    and recs: "df_records df = concat rss"
    by blast
  have types: "map rec_type (df_records df) =
      concat (replicate ?n
        [''pathway_degree'', ''expression_count_mean'', ''expression_count_std''])"
    using dir_list_types [OF rss] recs by simp
  have "length (map rec_type (df_records df)) = ?n * 3"
    unfolding types by (simp only: length_concat_replicate) simp
  then have len: "length (df_records df) = 3 * ?n" by simp
  have "length (csv_lines c) = 3 * ?n"
    if "WriteCsv f c \<in> set (fst (main e fs dir_list fname out_dir))"
    for e fname out_dir f c
  proof -
    from main_WriteCsv [OF that] assms have "c = to_csv df False" by auto
    with len show ?thesis by (simp add: to_csv_lines)
  qed
  with len types show ?thesis by blast
qed

theorem read_data_three_records_per_gene_witness:
  "read_data example_files [example_dir] = Inr (DataFrame example_records) \<and>
   gene_symbols example_dir = [''GeneX'', ''GeneZ''] \<and>
   length (df_records (DataFrame example_records)) = 6 \<and>
   map rec_type (df_records (DataFrame example_records)) =
     [''pathway_degree'', ''expression_count_mean'', ''expression_count_std'',
      ''pathway_degree'', ''expression_count_mean'', ''expression_count_std'']"
  using read_data_three_records_per_gene [OF example_read_data]
  by (simp add: example_read_data example_gene_symbols numeral_2_eq_2)

text \<open>
  C2.  Whenever \<open>read_data\<close> returns a table: for every gene symbol \<open>g\<close> of every input
  directory the table holds the pathway\_degree record of \<open>g\<close>, whose value is the degree
  of \<open>g\<close> in the pathway graph when \<open>g\<close> is a node of the graph and is missing otherwise;
  and every pathway\_degree record of the table is such a record.  Whether the loop over
  the genes raises does not depend on the graph, so an absent gene is never an error.
  Here the graph of a pathway is the undirected graph of the pairs (source, sink) of its
  edge list: its nodes are the end points of the pairs, and the degree of a node is the
  number of its distinct neighbours, a self-loop counting twice.
\<close>

theorem pathway_degree_value:
  assumes "read_data fs dir_list = Inr df"
  shows "(\<forall>dir pathway gene study treatment deconf_param g.
            dir \<in> set dir_list \<and>
            parse_dir dir = Inr (pathway, gene, study, treatment, deconf_param) \<and>
            g \<in> set (split CHR '','' gene) \<longrightarrow>
            (\<exists>graph. load_graph fs pathway = Inr graph \<and>
               \<lparr>rec_type = ''pathway_degree'', rec_gene = gene,
                rec_source = pathway @ '' -- '' @ g,
                rec_value = (if contains graph g then Some (real (degree graph g)) else None)\<rparr>
                 \<in> set (df_records df))) \<and>
         (\<forall>r \<in> set (df_records df). rec_type r = ''pathway_degree'' \<longrightarrow>
            (\<exists>dir \<in> set dir_list. \<exists>pathway gene study treatment deconf_param g graph.
               parse_dir dir = Inr (pathway, gene, study, treatment, deconf_param) \<and>
               g \<in> set (split CHR '','' gene) \<and>
               load_graph fs pathway = Inr graph \<and>
               rec_gene r = gene \<and> rec_source r = pathway @ '' -- '' @ g \<and>
               rec_value r =
                 (if contains graph g then Some (real (degree graph g)) else None))) \<and>
         (\<forall>graph graph' counts pathway gene treatment gs tmp e.
            gene_loop graph counts pathway gene treatment gs tmp = Inl e \<longrightarrow>
            gene_loop graph' counts pathway gene treatment gs tmp = Inl e) \<and>
         (\<forall>pathway graph g. load_graph fs pathway = Inr graph \<longrightarrow>
            (\<exists>edges us vs.
               edge_csv fs (pathway_fname pathway) = Some edges \<and>
               map_of edges ''source'' = Some us \<and> map_of edges ''sink'' = Some vs \<and>
               (contains graph g \<longleftrightarrow>
                  (\<exists>v. (g, v) \<in> set (zip us vs) \<or> (v, g) \<in> set (zip us vs))) \<and>
               degree graph g =
                 card {v. (g, v) \<in> set (zip us vs) \<or> (v, g) \<in> set (zip us vs)} +
                 (if (g, g) \<in> set (zip us vs) then 1 else 0)))"
proof -
  have graph_of: "\<forall>pathway graph g. load_graph fs pathway = Inr graph \<longrightarrow>
      (\<exists>edges us vs.
         edge_csv fs (pathway_fname pathway) = Some edges \<and>
         map_of edges ''source'' = Some us \<and> map_of edges ''sink'' = Some vs \<and>
         (contains graph g \<longleftrightarrow>
            (\<exists>v. (g, v) \<in> set (zip us vs) \<or> (v, g) \<in> set (zip us vs))) \<and>
         degree graph g =
           card {v. (g, v) \<in> set (zip us vs) \<or> (v, g) \<in> set (zip us vs)} +
           (if (g, g) \<in> set (zip us vs) then 1 else 0))"
  proof (intro allI impI)
    fix pathway graph g
    assume "load_graph fs pathway = Inr graph"
    then obtain edges us vs where
      e: "edge_csv fs (pathway_fname pathway) = Some edges"
         "map_of edges ''source'' = Some us" "map_of edges ''sink'' = Some vs" and
      g: "graph = add_edges_from Map.empty (zip us vs)"
      by (auto simp add: load_graph_Inr)
    have "contains graph g \<longleftrightarrow>
        (\<exists>v. (g, v) \<in> set (zip us vs) \<or> (v, g) \<in> set (zip us vs))"
      unfolding g contains_add_edges_from by force
    moreover have "degree graph g =
        card {v. (g, v) \<in> set (zip us vs) \<or> (v, g) \<in> set (zip us vs)} +
        (if (g, g) \<in> set (zip us vs) then 1 else 0)"
      unfolding g by (rule degree_add_edges_from)
    ultimately show "\<exists>edges us vs.
         edge_csv fs (pathway_fname pathway) = Some edges \<and>
         map_of edges ''source'' = Some us \<and> map_of edges ''sink'' = Some vs \<and>
         (contains graph g \<longleftrightarrow>
            (\<exists>v. (g, v) \<in> set (zip us vs) \<or> (v, g) \<in> set (zip us vs))) \<and>
         degree graph g =
           card {v. (g, v) \<in> set (zip us vs) \<or> (v, g) \<in> set (zip us vs)} +
           (if (g, g) \<in> set (zip us vs) then 1 else 0)"
      using e by blast
  qed
  have records: "(\<forall>dir pathway gene study treatment deconf_param g.
            dir \<in> set dir_list \<and>
            parse_dir dir = Inr (pathway, gene, study, treatment, deconf_param) \<and>
            g \<in> set (split CHR '','' gene) \<longrightarrow>
            (\<exists>graph. load_graph fs pathway = Inr graph \<and>
               \<lparr>rec_type = ''pathway_degree'', rec_gene = gene,
                rec_source = pathway @ '' -- '' @ g,
                rec_value = (if contains graph g then Some (real (degree graph g)) else None)\<rparr>
                 \<in> set (df_records df))) \<and>
         (\<forall>r \<in> set (df_records df). rec_type r = ''pathway_degree'' \<longrightarrow>
            (\<exists>dir \<in> set dir_list. \<exists>pathway gene study treatment deconf_param g graph.
               parse_dir dir = Inr (pathway, gene, study, treatment, deconf_param) \<and>
               g \<in> set (split CHR '','' gene) \<and>
               load_graph fs pathway = Inr graph \<and>
               rec_gene r = gene \<and> rec_source r = pathway @ '' -- '' @ g \<and>
               rec_value r =
                 (if contains graph g then Some (real (degree graph g)) else None))) \<and>
         (\<forall>graph graph' counts pathway gene treatment gs tmp e.
            gene_loop graph counts pathway gene treatment gs tmp = Inl e \<longrightarrow>
            gene_loop graph' counts pathway gene treatment gs tmp = Inl e)"
  proof (intro conjI allI impI ballI)
    fix dir pathway gene study treatment deconf_param g
    assume a: "dir \<in> set dir_list \<and>
      parse_dir dir = Inr (pathway, gene, study, treatment, deconf_param) \<and>
      g \<in> set (split CHR '','' gene)"
    then have "dir \<in> set dir_list"
      "parse_dir dir = Inr (pathway, gene, study, treatment, deconf_param)"
      "g \<in> set (split CHR '','' gene)"
      by simp_all
    from read_data_gene_triple [OF assms this] obtain graph counts row pre post where
      lg: "load_graph fs pathway = Inr graph" and
      recs: "df_records df =
        pre @ [degree_record graph pathway gene g, mean_record row treatment gene g,
               std_record row treatment gene g] @ post"
      by blast
    from recs have "degree_record graph pathway gene g \<in> set (df_records df)" by simp
    with lg show "\<exists>graph. load_graph fs pathway = Inr graph \<and>
        \<lparr>rec_type = ''pathway_degree'', rec_gene = gene, rec_source = pathway @ '' -- '' @ g,
         rec_value = (if contains graph g then Some (real (degree graph g)) else None)\<rparr>
          \<in> set (df_records df)"
      unfolding degree_record_def by blast
  next
    fix r
    assume r: "r \<in> set (df_records df)" and ty: "rec_type r = ''pathway_degree''"
    from read_data_origin [OF assms r] obtain dir pathway gene study treatment deconf_param
        graph counts g row where
      dir: "dir \<in> set dir_list" and
      pd: "parse_dir dir = Inr (pathway, gene, study, treatment, deconf_param)" and
      lg: "load_graph fs pathway = Inr graph" and
      g: "g \<in> set (split CHR '','' gene)" and
      kinds: "r = degree_record graph pathway gene g \<or> r = mean_record row treatment gene g \<or>
              r = std_record row treatment gene g"
      by blast
    from kinds ty have "r = degree_record graph pathway gene g"
      by (auto simp add: mean_record_def std_record_def)
    then have "rec_gene r = gene \<and> rec_source r = pathway @ '' -- '' @ g \<and>
        rec_value r = (if contains graph g then Some (real (degree graph g)) else None)"
      by (simp add: degree_record_def)
    with dir pd lg g show "\<exists>dir \<in> set dir_list.
        \<exists>pathway gene study treatment deconf_param g graph.
          parse_dir dir = Inr (pathway, gene, study, treatment, deconf_param) \<and>
          g \<in> set (split CHR '','' gene) \<and>
          load_graph fs pathway = Inr graph \<and>
          rec_gene r = gene \<and> rec_source r = pathway @ '' -- '' @ g \<and>
          rec_value r = (if contains graph g then Some (real (degree graph g)) else None)"
      by blast
  next
    fix graph graph' :: graph and counts pathway gene treatment gs tmp e
    assume "gene_loop graph counts pathway gene treatment gs tmp = Inl e"
    then show "gene_loop graph' counts pathway gene treatment gs tmp = Inl e"
      by (simp add: gene_loop_eq split: if_splits)
  qed
  with graph_of show ?thesis by blast
qed

theorem pathway_degree_value_witness:
  "read_data example_files [example_dir] = Inr (DataFrame example_records) \<and>
   load_graph example_files ''PathwayA'' = Inr example_graph \<and>
   contains example_graph ''GeneX'' \<and> degree example_graph ''GeneX'' = 1 \<and>
   \<not> contains example_graph ''GeneZ'' \<and>
   \<lparr>rec_type = ''pathway_degree'', rec_gene = ''GeneX,GeneZ'',
    rec_source = ''PathwayA -- GeneX'', rec_value = Some 1\<rparr> \<in> set example_records \<and>
   \<lparr>rec_type = ''pathway_degree'', rec_gene = ''GeneX,GeneZ'',
    rec_source = ''PathwayA -- GeneZ'', rec_value = None\<rparr> \<in> set example_records"
proof -
  note inst = pathway_degree_value [OF example_read_data, THEN conjunct1, rule_format,
      of example_dir "''PathwayA''" "''GeneX,GeneZ''" "''Study2''" "''2''" "''0.1''"]
  have x: "contains example_graph ''GeneX''" "degree example_graph ''GeneX'' = 1"
    and z: "\<not> contains example_graph ''GeneZ''"
    by (simp_all add: contains_def degree_def nbrs_def example_graph_def)
  from inst [of "''GeneX''"] x have
    "\<lparr>rec_type = ''pathway_degree'', rec_gene = ''GeneX,GeneZ'',
      rec_source = ''PathwayA -- GeneX'', rec_value = Some 1\<rparr> \<in> set example_records"
    by (simp add: example_parse example_load_graph DataFrame_def)
  moreover from inst [of "''GeneZ''"] z have
    "\<lparr>rec_type = ''pathway_degree'', rec_gene = ''GeneX,GeneZ'',
      rec_source = ''PathwayA -- GeneZ'', rec_value = None\<rparr> \<in> set example_records"
    by (simp add: example_parse example_load_graph DataFrame_def)
  ultimately show ?thesis
    using x z example_read_data example_load_graph by simp
qed

text \<open>
  C6.  Whenever \<open>read_data\<close> returns a table: for every gene symbol \<open>g\<close> of every input
  directory there is one row, the row \<open>g\<close> of that directory's concatenated table, such
  that the table holds, one after the other, the expression\_count\_mean record whose value
  is the mean of that row and the expression\_count\_std record whose value is the standard
  deviation of the same row.
\<close>

theorem mean_std_same_row:
  assumes "read_data fs dir_list = Inr df"
    and "dir \<in> set dir_list"
    and "parse_dir dir = Inr (pathway, gene, study, treatment, deconf_param)"
    and "g \<in> set (split CHR '','' gene)"
  shows "\<exists>counts row graph pre post.
           load_counts fs study gene treatment = Inr counts \<and>
           loc counts g = Inr row \<and>
           df_records df =
             pre @
             [degree_record graph pathway gene g,
              \<lparr>rec_type = ''expression_count_mean'', rec_gene = gene,
               rec_source = treatment @ '' -- '' @ g, rec_value = mean row\<rparr>,
              \<lparr>rec_type = ''expression_count_std'', rec_gene = gene,
               rec_source = treatment @ '' -- '' @ g, rec_value = std row\<rparr>] @ post"
proof -
  from read_data_gene_triple [OF assms] obtain graph counts row pre post where
    lc: "load_counts fs study gene treatment = Inr counts" and
    row: "tab_rows counts g = Some row" and
    recs: "df_records df =
      pre @ [degree_record graph pathway gene g, mean_record row treatment gene g,
             std_record row treatment gene g] @ post"
    by blast
  from row have "loc counts g = Inr row" by (simp add: loc_def)
  with lc recs show ?thesis unfolding mean_record_def std_record_def by blast
qed

theorem mean_std_same_row_witness:
  "read_data example_files [example_dir] = Inr (DataFrame example_records) \<and>
   example_dir \<in> set [example_dir] \<and>
   parse_dir example_dir = Inr (''PathwayA'', ''GeneX,GeneZ'', ''Study2'', ''2'', ''0.1'') \<and>
   ''GeneX'' \<in> set (split CHR '','' ''GeneX,GeneZ'') \<and>
   (\<exists>counts row graph pre post.
      load_counts example_files ''Study2'' ''GeneX,GeneZ'' ''2'' = Inr counts \<and>
      loc counts ''GeneX'' = Inr row \<and>
      df_records (DataFrame example_records) =
        pre @
        [degree_record graph ''PathwayA'' ''GeneX,GeneZ'' ''GeneX'',
         \<lparr>rec_type = ''expression_count_mean'', rec_gene = ''GeneX,GeneZ'',
          rec_source = ''2'' @ '' -- '' @ ''GeneX'', rec_value = mean row\<rparr>,
         \<lparr>rec_type = ''expression_count_std'', rec_gene = ''GeneX,GeneZ'',
          rec_source = ''2'' @ '' -- '' @ ''GeneX'', rec_value = std row\<rparr>] @ post) \<and>
   loc example_counts ''GeneX'' = Inr [Some 1, None, Some 3] \<and>
   mean [Some 1, None, Some 3] = Some 2 \<and> std [Some 1, None, Some 3] = Some (sqrt 2)"
proof -
  have v: "loc example_counts ''GeneX'' = Inr [Some 1, None, Some 3]"
    "mean [Some 1, None, Some 3] = Some 2" "std [Some 1, None, Some 3] = Some (sqrt 2)"
    by (simp_all add: loc_def example_rows mean_def std_def)
  have g: "''GeneX'' \<in> set (split CHR '','' ''GeneX,GeneZ'')" by simp
  have d: "example_dir \<in> set [example_dir]" by simp
  from mean_std_same_row [OF example_read_data d example_parse g]
    example_read_data example_parse g d v
  show ?thesis by blast
qed

text \<open>
  C10.  Whenever \<open>read_data\<close> returns a table: for every gene symbol \<open>g\<close> of every input
  directory, let the row be the cells of \<open>g\<close> in the control file followed by its cells in
  the mutant file (missing cells throughout for a file without that row), and let \<open>xs\<close> be
  the non-missing cells of the row, \<open>n\<close> their number and \<open>m\<close> their arithmetic mean.  The
  expression\_count\_mean record of \<open>g\<close> has value \<open>m\<close>, and is missing when \<open>n = 0\<close>; the
  expression\_count\_std record has the value of the square root of the sum of squared
  deviations from \<open>m\<close> divided by \<open>n - 1\<close>, and is missing when \<open>n \<le> 1\<close>.  Neither case
  is an error: the table is returned.
\<close>

theorem mean_std_skip_missing:
  assumes "read_data fs dir_list = Inr df"
    and "dir \<in> set dir_list"
    and "parse_dir dir = Inr (pathway, gene, study, treatment, deconf_param)"
    and "g \<in> set (split CHR '','' gene)"
  shows "\<exists>wt mt.
           count_csv fs (data_wt_fname study treatment) = Some wt \<and>
           count_csv fs (data_mt_fname study gene treatment) = Some mt \<and>
           (let row =
              (case tab_rows wt g of
                 None \<Rightarrow> replicate (length (tab_columns wt)) None | Some x \<Rightarrow> x) @
              (case tab_rows mt g of
                 None \<Rightarrow> replicate (length (tab_columns mt)) None | Some y \<Rightarrow> y);
              xs = dropna row; n = length xs; m = sum_list xs / real n
            in map Some xs = filter (\<lambda>c. c \<noteq> None) row \<and>
               \<lparr>rec_type = ''expression_count_mean'', rec_gene = gene,
                rec_source = treatment @ '' -- '' @ g,
                rec_value = (if n = 0 then None else Some m)\<rparr> \<in> set (df_records df) \<and>
               \<lparr>rec_type = ''expression_count_std'', rec_gene = gene,
                rec_source = treatment @ '' -- '' @ g,
                rec_value =
                  (if n \<le> 1 then None
                   else Some (sqrt ((\<Sum>x\<leftarrow>xs. (x - m)\<^sup>2) / real (n - 1))))\<rparr>
                 \<in> set (df_records df))"
proof -
  from read_data_gene_triple [OF assms] obtain graph counts row pre post where
    lc: "load_counts fs study gene treatment = Inr counts" and
    row: "tab_rows counts g = Some row" and
    recs: "df_records df =
      pre @ [degree_record graph pathway gene g, mean_record row treatment gene g,
             std_record row treatment gene g] @ post"
    by blast
  from lc obtain wt mt where
    wt: "count_csv fs (data_wt_fname study treatment) = Some wt" and
    mt: "count_csv fs (data_mt_fname study gene treatment) = Some mt" and
    counts: "counts = concat_axis1 wt mt"
    by (auto simp add: load_counts_Inr)
  define row' where "row' =
    (case tab_rows wt g of None \<Rightarrow> replicate (length (tab_columns wt)) None | Some x \<Rightarrow> x) @
    (case tab_rows mt g of None \<Rightarrow> replicate (length (tab_columns mt)) None | Some y \<Rightarrow> y)"
  from row counts have eq: "row = row'"
    unfolding row'_def by (auto dest: concat_axis1_row)
  from recs have mem: "mean_record row' treatment gene g \<in> set (df_records df)"
    "std_record row' treatment gene g \<in> set (df_records df)"
    by (simp_all add: eq)
  have m: "mean_record row' treatment gene g =
      \<lparr>rec_type = ''expression_count_mean'', rec_gene = gene,
       rec_source = treatment @ '' -- '' @ g,
       rec_value = (if length (dropna row') = 0 then None
                    else Some (sum_list (dropna row') / real (length (dropna row'))))\<rparr>"
    by (simp add: mean_record_def mean_def Let_def)
  have s: "std_record row' treatment gene g =
      \<lparr>rec_type = ''expression_count_std'', rec_gene = gene,
       rec_source = treatment @ '' -- '' @ g,
       rec_value =
         (if length (dropna row') \<le> 1 then None
          else Some (sqrt ((\<Sum>x\<leftarrow>dropna row'.
                  (x - sum_list (dropna row') / real (length (dropna row')))\<^sup>2) /
                real (length (dropna row') - 1))))\<rparr>"
    by (auto simp add: std_record_def std_def Let_def)
  from mem have "map Some (dropna row') = filter (\<lambda>c. c \<noteq> None) row' \<and>
      \<lparr>rec_type = ''expression_count_mean'', rec_gene = gene,
       rec_source = treatment @ '' -- '' @ g,
       rec_value = (if length (dropna row') = 0 then None
                    else Some (sum_list (dropna row') / real (length (dropna row'))))\<rparr>
        \<in> set (df_records df) \<and>
      \<lparr>rec_type = ''expression_count_std'', rec_gene = gene,
       rec_source = treatment @ '' -- '' @ g,
       rec_value =
         (if length (dropna row') \<le> 1 then None
          else Some (sqrt ((\<Sum>x\<leftarrow>dropna row'.
                  (x - sum_list (dropna row') / real (length (dropna row')))\<^sup>2) /
                real (length (dropna row') - 1))))\<rparr> \<in> set (df_records df)"
    unfolding m s by (simp add: dropna_filter)
  with wt mt show ?thesis unfolding row'_def Let_def by blast
qed

theorem mean_std_skip_missing_witness:
  "read_data example_files [example_dir] = Inr (DataFrame example_records) \<and>
   example_dir \<in> set [example_dir] \<and>
   parse_dir example_dir = Inr (''PathwayA'', ''GeneX,GeneZ'', ''Study2'', ''2'', ''0.1'') \<and>
   ''GeneZ'' \<in> set (split CHR '','' ''GeneX,GeneZ'') \<and>
   (\<exists>wt mt.
      count_csv example_files (data_wt_fname ''Study2'' ''2'') = Some wt \<and>
      count_csv example_files (data_mt_fname ''Study2'' ''GeneX,GeneZ'' ''2'') = Some mt \<and>
      tab_rows wt ''GeneZ'' = Some [None, None] \<and> tab_rows mt ''GeneZ'' = None \<and>
      tab_columns mt = [''c''] \<and>
      \<lparr>rec_type = ''expression_count_mean'', rec_gene = ''GeneX,GeneZ'',
       rec_source = ''2 -- GeneZ'', rec_value = None\<rparr>
        \<in> set (df_records (DataFrame example_records)) \<and>
      \<lparr>rec_type = ''expression_count_std'', rec_gene = ''GeneX,GeneZ'',
       rec_source = ''2 -- GeneZ'', rec_value = None\<rparr>
        \<in> set (df_records (DataFrame example_records)))"
proof -
  have g: "''GeneZ'' \<in> set (split CHR '','' ''GeneX,GeneZ'')" by simp
  have d: "example_dir \<in> set [example_dir]" by simp
  from mean_std_skip_missing [OF example_read_data d example_parse g]
  obtain wt mt where
    wt: "count_csv example_files (data_wt_fname ''Study2'' ''2'') = Some wt" and
    mt: "count_csv example_files (data_mt_fname ''Study2'' ''GeneX,GeneZ'' ''2'') = Some mt" and
    rest: "(let row =
              (case tab_rows wt ''GeneZ'' of
                 None \<Rightarrow> replicate (length (tab_columns wt)) None | Some x \<Rightarrow> x) @
              (case tab_rows mt ''GeneZ'' of
                 None \<Rightarrow> replicate (length (tab_columns mt)) None | Some y \<Rightarrow> y);
              xs = dropna row; n = length xs; m = sum_list xs / real n
            in map Some xs = filter (\<lambda>c. c \<noteq> None) row \<and>
               \<lparr>rec_type = ''expression_count_mean'', rec_gene = ''GeneX,GeneZ'',
                rec_source = ''2'' @ '' -- '' @ ''GeneZ'',
                rec_value = (if n = 0 then None else Some m)\<rparr>
                 \<in> set (df_records (DataFrame example_records)) \<and>
               \<lparr>rec_type = ''expression_count_std'', rec_gene = ''GeneX,GeneZ'',
                rec_source = ''2'' @ '' -- '' @ ''GeneZ'',
                rec_value =
                  (if n \<le> 1 then None
                   else Some (sqrt ((\<Sum>x\<leftarrow>xs. (x - m)\<^sup>2) / real (n - 1))))\<rparr>
                 \<in> set (df_records (DataFrame example_records)))"
    by blast
  from wt have wt_eq: "wt = \<lparr>tab_columns = [''a'', ''b''],
      tab_rows = [''GeneX'' \<mapsto> [Some 1, None], ''GeneZ'' \<mapsto> [None, None]]\<rparr>"
    by (simp add: example_files_def data_wt_fname_def)
  from mt have mt_eq: "mt = \<lparr>tab_columns = [''c''], tab_rows = [''GeneX'' \<mapsto> [Some 3]]\<rparr>"
    by (simp add: example_files_def data_mt_fname_def)
  have rows: "tab_rows wt ''GeneZ'' = Some [None, None]" "tab_rows mt ''GeneZ'' = None"
    "tab_columns mt = [''c'']"
    by (simp_all add: wt_eq mt_eq)
  from rest have
    "\<lparr>rec_type = ''expression_count_mean'', rec_gene = ''GeneX,GeneZ'',
      rec_source = ''2 -- GeneZ'', rec_value = None\<rparr>
       \<in> set (df_records (DataFrame example_records))"
    "\<lparr>rec_type = ''expression_count_std'', rec_gene = ''GeneX,GeneZ'',
      rec_source = ''2 -- GeneZ'', rec_value = None\<rparr>
       \<in> set (df_records (DataFrame example_records))"
    by (simp_all add: rows Let_def)
  with wt mt rows example_read_data example_parse g d show ?thesis by blast
qed

text \<open>
  C4.  Let a directory parse, its pathway graph and its two count files load, and let one
  of its gene symbols label no row of the concatenated table.  Then processing that
  directory raises KeyError: \<open>read_data\<close> returns KeyError whenever the directories before
  it are processed without error, and in no case returns a table for a list that contains
  the directory, so no record with a missing mean or standard deviation is emitted.
\<close>

theorem missing_expression_row_raises:
  assumes "parse_dir dir = Inr (pathway, gene, study, treatment, deconf_param)"
    and "load_graph fs pathway = Inr graph"
    and "load_counts fs study gene treatment = Inr counts"
    and "g \<in> set (split CHR '','' gene)"
    and "tab_rows counts g = None"
  shows "(\<forall>before after df0.
            read_data fs before = Inr df0 \<longrightarrow>
            read_data fs (before @ dir # after) = Inl KeyError) \<and>
         (\<forall>dir_list. dir \<in> set dir_list \<longrightarrow> (\<exists>e. read_data fs dir_list = Inl e))"
proof -
  from assms have dr: "dir_records fs dir = Inl KeyError"
    by (auto simp add: dir_records_eq)
  have "read_data fs (before @ dir # after) = Inl KeyError"
    if "read_data fs before = Inr df0" for before after df0
  proof -
    from that obtain tmp where "dir_loop fs before [] = Inr tmp"
      by (auto simp add: read_data_Inr)
    then have "dir_loop fs (before @ dir # after) [] = Inl KeyError"
      unfolding dir_loop_append dir_loop_Cons by (simp add: dr)
    then show ?thesis by (simp add: read_data_def)
  qed
  moreover have "\<exists>e. read_data fs dir_list = Inl e" if "dir \<in> set dir_list" for dir_list
  proof (cases "read_data fs dir_list")
    case (Inl e)
    then show ?thesis by blast
  next
    case (Inr df)
    from read_data_records [OF this] obtain rss where
      "list_all2 (\<lambda>dir rs. dir_records fs dir = Inr rs) dir_list rss" by blast
    from list_all2_mem1 [OF this that] dr show ?thesis by auto
  qed
  ultimately show ?thesis by blast
qed

theorem missing_expression_row_raises_witness:
  "parse_dir missing_row_dir = Inr (''PathwayA'', ''GeneY'', ''Study1'', ''1'', ''z'') \<and>
   load_graph missing_row_files ''PathwayA'' = Inr example_graph \<and>
   load_counts missing_row_files ''Study1'' ''GeneY'' ''1'' =
     Inr (concat_axis1 scenario_counts scenario_counts) \<and>
   ''GeneY'' \<in> set (split CHR '','' ''GeneY'') \<and>
   tab_rows (concat_axis1 scenario_counts scenario_counts) ''GeneY'' = None \<and>
   (\<exists>df. read_data missing_row_files [scenario_dir] = Inr df) \<and>
   read_data missing_row_files [scenario_dir, missing_row_dir] = Inl KeyError"
proof -
  have g: "''GeneY'' \<in> set (split CHR '','' ''GeneY'')" by simp
  note l = missing_row_rows(1)
  from missing_row_before obtain df0 where
    b: "read_data missing_row_files [scenario_dir] = Inr df0" by blast
  from missing_expression_row_raises [OF missing_row_parse(1) missing_row_load_graph
      missing_row_load_counts(1) g l, THEN conjunct1, rule_format, OF b, of "[]"]
  have "read_data missing_row_files [scenario_dir, missing_row_dir] = Inl KeyError"
    by simp
  with missing_row_parse(1) missing_row_load_graph missing_row_load_counts(1) g l b
  show ?thesis by blast
qed

text \<open>
  C5.  The path parser splits the directory string at every slash.  When the segments end
  in \<open>pathway, gene, study, treatment, deconf_param\<close>, these five are the parsed fields,
  whatever precedes them; in particular a path joined from slash-free segments parses to
  its last five.  The gene field is split at every comma into one or more comma-free
  symbols that join back to the field.  With fewer than five segments the parser raises
  ValueError, and so does \<open>read_data\<close> when it reaches such a directory.
\<close>

theorem parse_dir_last_five:
  "(split CHR ''/'' dir = front @ [pathway, gene, study, treatment, deconf_param] \<longrightarrow>
      parse_dir dir = Inr (pathway, gene, study, treatment, deconf_param) \<and>
      gene_symbols dir = split CHR '','' gene) \<and>
   ((\<forall>w \<in> set (front @ [pathway, gene, study, treatment, deconf_param]). CHR ''/'' \<notin> set w) \<longrightarrow>
      parse_dir (join CHR ''/'' (front @ [pathway, gene, study, treatment, deconf_param])) =
        Inr (pathway, gene, study, treatment, deconf_param)) \<and>
   split CHR '','' gene \<noteq> [] \<and>
   join CHR '','' (split CHR '','' gene) = gene \<and>
   (\<forall>g \<in> set (split CHR '','' gene). CHR '','' \<notin> set g) \<and>
   length (split CHR ''/'' dir) = Suc (length (filter (\<lambda>c. c = CHR ''/'') dir)) \<and>
   (length (split CHR ''/'' dir) < 5 \<longrightarrow>
      parse_dir dir = Inl ValueError \<and>
      (\<forall>fs before after df0.
         read_data fs before = Inr df0 \<longrightarrow>
         read_data fs (before @ dir # after) = Inl ValueError))"
proof (intro conjI impI ballI)
  assume "split CHR ''/'' dir = front @ [pathway, gene, study, treatment, deconf_param]"
  then show p: "parse_dir dir = Inr (pathway, gene, study, treatment, deconf_param)"
    by (rule parse_dir_long)
  then show "gene_symbols dir = split CHR '','' gene"
    by (simp add: gene_symbols_def)
next
  assume "\<forall>w \<in> set (front @ [pathway, gene, study, treatment, deconf_param]).
    CHR ''/'' \<notin> set w"
  then have "split CHR ''/''
      (join CHR ''/'' (front @ [pathway, gene, study, treatment, deconf_param])) =
    front @ [pathway, gene, study, treatment, deconf_param]"
    by (intro split_join) simp_all
  then show "parse_dir (join CHR ''/''
      (front @ [pathway, gene, study, treatment, deconf_param])) =
    Inr (pathway, gene, study, treatment, deconf_param)"
    by (rule parse_dir_long)
next
  show "split CHR '','' gene \<noteq> []" by (rule split_not_Nil)
next
  show "join CHR '','' (split CHR '','' gene) = gene" by (rule join_split)
next
  fix g assume "g \<in> set (split CHR '','' gene)"
  then show "CHR '','' \<notin> set g" by (rule split_no_sep)
next
  show "length (split CHR ''/'' dir) = Suc (length (filter (\<lambda>c. c = CHR ''/'') dir))"
    by (rule split_length)
next
  assume short: "length (split CHR ''/'' dir) < 5"
  then show "parse_dir dir = Inl ValueError" by (rule parse_dir_short)
  show "\<forall>fs before after df0.
      read_data fs before = Inr df0 \<longrightarrow> read_data fs (before @ dir # after) = Inl ValueError"
  proof (intro allI impI)
    fix fs before after df0
    assume "read_data fs before = Inr df0"
    then obtain tmp where "dir_loop fs before [] = Inr tmp"
      by (auto simp add: read_data_Inr)
    then have "dir_loop fs (before @ dir # after) [] = Inl ValueError"
      unfolding dir_loop_append dir_loop_Cons by (simp add: dir_records_short [OF short])
    then show "read_data fs (before @ dir # after) = Inl ValueError"
      by (simp add: read_data_def)
  qed
qed

theorem parse_dir_last_five_witness:
  "split CHR ''/'' ''x/y/PathwayA/GeneX,GeneZ/Study1/1/z'' =
     [''x'', ''y''] @ [''PathwayA'', ''GeneX,GeneZ'', ''Study1'', ''1'', ''z''] \<and>
   parse_dir ''x/y/PathwayA/GeneX,GeneZ/Study1/1/z'' =
     Inr (''PathwayA'', ''GeneX,GeneZ'', ''Study1'', ''1'', ''z'') \<and>
   gene_symbols ''x/y/PathwayA/GeneX,GeneZ/Study1/1/z'' = [''GeneX'', ''GeneZ''] \<and>
   length (split CHR ''/'' ''GeneX/Study1/1/z'') < 5 \<and>
   parse_dir ''GeneX/Study1/1/z'' = Inl ValueError \<and>
   read_data example_files [example_dir] = Inr (DataFrame example_records) \<and>
   read_data example_files [example_dir, ''GeneX/Study1/1/z''] = Inl ValueError"
proof -
  have s: "split CHR ''/'' ''x/y/PathwayA/GeneX,GeneZ/Study1/1/z'' =
     [''x'', ''y''] @ [''PathwayA'', ''GeneX,GeneZ'', ''Study1'', ''1'', ''z'']"
    by simp
  have l: "length (split CHR ''/'' ''GeneX/Study1/1/z'') < 5" by simp
  note a = parse_dir_last_five [of "''x/y/PathwayA/GeneX,GeneZ/Study1/1/z''" "[''x'', ''y'']"
      "''PathwayA''" "''GeneX,GeneZ''" "''Study1''" "''1''" "''z''",
      THEN conjunct1, rule_format, OF s]
  note b = parse_dir_last_five [of "''GeneX/Study1/1/z''" "[]" "[]" "[]" "[]" "[]" "[]"]
  from b l have b1: "parse_dir ''GeneX/Study1/1/z'' = Inl ValueError" by blast
  from b l example_read_data have
    "read_data example_files ([example_dir] @ ''GeneX/Study1/1/z'' # []) = Inl ValueError"
    by blast
  then have b2: "read_data example_files [example_dir, ''GeneX/Study1/1/z''] = Inl ValueError"
    by simp
  from a have a': "parse_dir ''x/y/PathwayA/GeneX,GeneZ/Study1/1/z'' =
     Inr (''PathwayA'', ''GeneX,GeneZ'', ''Study1'', ''1'', ''z'')"
    "gene_symbols ''x/y/PathwayA/GeneX,GeneZ/Study1/1/z'' = [''GeneX'', ''GeneZ'']"
    by simp_all
  from s l a' b1 b2 example_read_data show ?thesis by blast
qed

text \<open>
  C9.  \<open>read_data\<close> builds the pathway graph from the columns named \<open>source\<close> and
  \<open>sink\<close> of the edge-list file, and from nothing else.  When the file has both columns,
  loading the graph succeeds and gives the undirected graph of the pairs (source, sink) taken
  row by row: its nodes are the end points of the pairs, the neighbours of a node are the
  other end points of its pairs, each once, and its degree is their number, a self-loop
  counting twice.  When the file exists and lacks one of the two columns, loading the graph
  raises KeyError, and so does \<open>read_data\<close> when it reaches a directory of that pathway.
  Two edge lists that agree on these two columns give the same graph, and two sets of files
  that differ only in other columns of their edge lists give the same result of
  \<open>read_data\<close>.
\<close>

theorem edge_list_needs_source_and_sink:
  "(edge_csv fs (pathway_fname pathway) = Some edges \<and>
    (''source'' \<notin> fst ` set edges \<or> ''sink'' \<notin> fst ` set edges) \<longrightarrow>
      load_graph fs pathway = Inl KeyError \<and>
      (\<forall>dir gene study treatment deconf_param before after df0.
         parse_dir dir = Inr (pathway, gene, study, treatment, deconf_param) \<and>
         read_data fs before = Inr df0 \<longrightarrow>
         read_data fs (before @ dir # after) = Inl KeyError)) \<and>
   (map_of edges ''source'' = map_of edges' ''source'' \<and>
    map_of edges ''sink'' = map_of edges' ''sink'' \<longrightarrow>
      from_pandas_edgelist edges ''source'' ''sink'' =
      from_pandas_edgelist edges' ''source'' ''sink'') \<and>
   (count_csv fs = count_csv fs' \<and>
    (\<forall>fname. rel_option
       (\<lambda>a b. map_of a ''source'' = map_of b ''source'' \<and> map_of a ''sink'' = map_of b ''sink'')
       (edge_csv fs fname) (edge_csv fs' fname)) \<longrightarrow>
      read_data fs dir_list = read_data fs' dir_list) \<and>
   (edge_csv fs (pathway_fname pathway) = Some edges \<and>
    map_of edges ''source'' = Some us \<and> map_of edges ''sink'' = Some vs \<longrightarrow>
      (\<exists>graph. load_graph fs pathway = Inr graph \<and>
         (\<forall>g. (contains graph g \<longleftrightarrow>
                 (\<exists>v. (g, v) \<in> set (zip us vs) \<or> (v, g) \<in> set (zip us vs))) \<and>
              set (nbrs graph g) = {v. (g, v) \<in> set (zip us vs) \<or> (v, g) \<in> set (zip us vs)} \<and>
              distinct (nbrs graph g) \<and>
              degree graph g =
                card {v. (g, v) \<in> set (zip us vs) \<or> (v, g) \<in> set (zip us vs)} +
                (if (g, g) \<in> set (zip us vs) then 1 else 0))))"
proof (intro conjI impI)
  assume a: "edge_csv fs (pathway_fname pathway) = Some edges \<and>
    (''source'' \<notin> fst ` set edges \<or> ''sink'' \<notin> fst ` set edges)"
  then show lg: "load_graph fs pathway = Inl KeyError"
    by (simp add: load_graph_def read_csv_def from_pandas_edgelist_absent)
  show "\<forall>dir gene study treatment deconf_param before after df0.
      parse_dir dir = Inr (pathway, gene, study, treatment, deconf_param) \<and>
      read_data fs before = Inr df0 \<longrightarrow>
      read_data fs (before @ dir # after) = Inl KeyError"
  proof (intro allI impI)
    fix dir gene study treatment deconf_param before after df0
    assume b: "parse_dir dir = Inr (pathway, gene, study, treatment, deconf_param) \<and>
      read_data fs before = Inr df0"
    then have dr: "dir_records fs dir = Inl KeyError"
      by (simp add: dir_records_eq lg)
    from b obtain tmp where "dir_loop fs before [] = Inr tmp"
      by (auto simp add: read_data_Inr)
    then have "dir_loop fs (before @ dir # after) [] = Inl KeyError"
      unfolding dir_loop_append dir_loop_Cons by (simp add: dr)
    then show "read_data fs (before @ dir # after) = Inl KeyError"
      by (simp add: read_data_def)
  qed
next
  assume "map_of edges ''source'' = map_of edges' ''source'' \<and>
    map_of edges ''sink'' = map_of edges' ''sink''"
  then show "from_pandas_edgelist edges ''source'' ''sink'' =
      from_pandas_edgelist edges' ''source'' ''sink''"
    by (intro from_pandas_edgelist_cong) simp_all
next
  assume a: "count_csv fs = count_csv fs' \<and>
    (\<forall>fname. rel_option
       (\<lambda>a b. map_of a ''source'' = map_of b ''source'' \<and> map_of a ''sink'' = map_of b ''sink'')
       (edge_csv fs fname) (edge_csv fs' fname))"
  have lg: "load_graph fs p = load_graph fs' p" for p
  proof -
    from a have "rel_option
       (\<lambda>a b. map_of a ''source'' = map_of b ''source'' \<and> map_of a ''sink'' = map_of b ''sink'')
       (edge_csv fs (pathway_fname p)) (edge_csv fs' (pathway_fname p))"
      by blast
    then show ?thesis
    proof (cases rule: option.rel_cases)
      case None
      then show ?thesis by (simp add: load_graph_def read_csv_def)
    next
      case (Some x y)
      then have "from_pandas_edgelist x ''source'' ''sink'' =
          from_pandas_edgelist y ''source'' ''sink''"
        by (intro from_pandas_edgelist_cong) simp_all
      with Some show ?thesis by (simp add: load_graph_def read_csv_def)
    qed
  qed
  from a have lc: "load_counts fs s g t = load_counts fs' s g t" for s g t
    by (simp add: load_counts_def read_csv_index_def cong: sum.case_cong)
  have "dir_records fs dir = dir_records fs' dir" for dir
    by (simp add: dir_records_eq lg lc cong: sum.case_cong prod.case_cong)
  then have "dir_loop fs dir_list [] = dir_loop fs' dir_list []"
    by (rule dir_loop_cong)
  then show "read_data fs dir_list = read_data fs' dir_list"
    by (simp add: read_data_def)
next
  assume c: "edge_csv fs (pathway_fname pathway) = Some edges \<and>
    map_of edges ''source'' = Some us \<and> map_of edges ''sink'' = Some vs"
  let ?E = "zip us vs"
  let ?G = "add_edges_from Map.empty ?E"
  from c have lg: "load_graph fs pathway = Inr ?G"
    unfolding load_graph_Inr by blast
  have "(contains ?G g \<longleftrightarrow> (\<exists>v. (g, v) \<in> set ?E \<or> (v, g) \<in> set ?E)) \<and>
      set (nbrs ?G g) = {v. (g, v) \<in> set ?E \<or> (v, g) \<in> set ?E} \<and>
      distinct (nbrs ?G g) \<and>
      degree ?G g =
        card {v. (g, v) \<in> set ?E \<or> (v, g) \<in> set ?E} +
        (if (g, g) \<in> set ?E then 1 else 0)" for g
  proof -
    have "contains ?G g \<longleftrightarrow> (\<exists>v. (g, v) \<in> set ?E \<or> (v, g) \<in> set ?E)"
      unfolding contains_add_edges_from by force
    moreover from add_edges_from_graph [of Map.empty ?E g]
    have "set (nbrs ?G g) = {v. (g, v) \<in> set ?E \<or> (v, g) \<in> set ?E}"
      and "distinct (nbrs ?G g)"
      by (simp_all add: nbrs_def)
    moreover have "degree ?G g =
        card {v. (g, v) \<in> set ?E \<or> (v, g) \<in> set ?E} +
        (if (g, g) \<in> set ?E then 1 else 0)"
      by (rule degree_add_edges_from)
    ultimately show ?thesis by blast
  qed
  with lg show "\<exists>graph. load_graph fs pathway = Inr graph \<and>
      (\<forall>g. (contains graph g \<longleftrightarrow>
              (\<exists>v. (g, v) \<in> set (zip us vs) \<or> (v, g) \<in> set (zip us vs))) \<and>
           set (nbrs graph g) = {v. (g, v) \<in> set (zip us vs) \<or> (v, g) \<in> set (zip us vs)} \<and>
           distinct (nbrs graph g) \<and>
           degree graph g =
             card {v. (g, v) \<in> set (zip us vs) \<or> (v, g) \<in> set (zip us vs)} +
             (if (g, g) \<in> set (zip us vs) then 1 else 0))"
    by blast
qed

theorem edge_list_needs_source_and_sink_witness:
  "edge_csv no_sink_files (pathway_fname ''PathwayA'') =
     Some [(''source'', [''GeneX'']), (''target'', [''GeneY''])] \<and>
   ''sink'' \<notin> fst ` set [(''source'', [''GeneX'']), (''target'', [''GeneY''])] \<and>
   parse_dir scenario_dir = Inr (''PathwayA'', ''GeneX'', ''Study1'', ''1'', ''z'') \<and>
   read_data no_sink_files [] = Inr (DataFrame []) \<and>
   load_graph no_sink_files ''PathwayA'' = Inl KeyError \<and>
   read_data no_sink_files [scenario_dir] = Inl KeyError \<and>
   map_of [(''source'', [''GeneX'']), (''sink'', [''GeneY'']), (''weight'', [''7''])] ''source'' =
     map_of [(''source'', [''GeneX'']), (''sink'', [''GeneY''])] ''source'' \<and>
   map_of [(''source'', [''GeneX'']), (''sink'', [''GeneY'']), (''weight'', [''7''])] ''sink'' =
     map_of [(''source'', [''GeneX'']), (''sink'', [''GeneY''])] ''sink'' \<and>
   from_pandas_edgelist
     [(''source'', [''GeneX'']), (''sink'', [''GeneY'']), (''weight'', [''7''])]
     ''source'' ''sink'' =
   from_pandas_edgelist [(''source'', [''GeneX'']), (''sink'', [''GeneY''])] ''source'' ''sink'' \<and>
   edge_csv example_files (pathway_fname ''PathwayA'') =
     Some [(''source'', [''GeneX'']), (''sink'', [''GeneY'']), (''weight'', [''7''])] \<and>
   load_graph example_files ''PathwayA'' = Inr example_graph \<and>
   contains example_graph ''GeneX'' \<and> contains example_graph ''GeneY'' \<and>
   \<not> contains example_graph ''7'' \<and>
   set (nbrs example_graph ''GeneX'') = {''GeneY''} \<and>
   degree example_graph ''GeneX'' = 1"
proof -
  let ?bad = "[(''source'', [''GeneX'']), (''target'', [''GeneY''])]"
  let ?wide = "[(''source'', [''GeneX'']), (''sink'', [''GeneY'']), (''weight'', [''7''])]"
  let ?slim = "[(''source'', [''GeneX'']), (''sink'', [''GeneY''])]"
  have h: "''sink'' \<notin> fst ` set ?bad" by simp
  have m: "map_of ?wide ''source'' = map_of ?slim ''source''"
    "map_of ?wide ''sink'' = map_of ?slim ''sink''"
    by simp_all
  note t = edge_list_needs_source_and_sink [where fs = no_sink_files and
      pathway = "''PathwayA''" and edges = ?bad]
  note u = edge_list_needs_source_and_sink [where edges = ?wide and edges' = ?slim]
  from h no_sink_edges have pre: "edge_csv no_sink_files (pathway_fname ''PathwayA'') = Some ?bad \<and>
    (''source'' \<notin> fst ` set ?bad \<or> ''sink'' \<notin> fst ` set ?bad)"
    by simp
  note t1 = t [THEN conjunct1, rule_format, OF pre]
  from t1 have a: "load_graph no_sink_files ''PathwayA'' = Inl KeyError" by (rule conjunct1)
  from missing_row_parse(2) read_data_Nil [of no_sink_files]
  have pre2: "parse_dir scenario_dir = Inr (''PathwayA'', ''GeneX'', ''Study1'', ''1'', ''z'') \<and>
    read_data no_sink_files [] = Inr (DataFrame [])"
    by simp
  from t1 [THEN conjunct2, rule_format, OF pre2, of "[]"]
  have b: "read_data no_sink_files [scenario_dir] = Inl KeyError" by simp
  from u [THEN conjunct2, THEN conjunct1] m
  have c: "from_pandas_edgelist ?wide ''source'' ''sink'' =
      from_pandas_edgelist ?slim ''source'' ''sink''"
    by simp
  have pre3: "edge_csv example_files (pathway_fname ''PathwayA'') = Some ?wide \<and>
    map_of ?wide ''source'' = Some [''GeneX''] \<and> map_of ?wide ''sink'' = Some [''GeneY'']"
    by (simp add: example_files_def pathway_fname_def)
  from edge_list_needs_source_and_sink [where fs = example_files and
      pathway = "''PathwayA''" and edges = ?wide and us = "[''GeneX'']" and vs = "[''GeneY'']",
      THEN conjunct2, THEN conjunct2, THEN conjunct2, rule_format, OF pre3]
  obtain graph where
    lg: "load_graph example_files ''PathwayA'' = Inr graph" and
    gr: "\<And>g. (contains graph g \<longleftrightarrow>
            (\<exists>v. (g, v) \<in> set (zip [''GeneX''] [''GeneY'']) \<or>
                 (v, g) \<in> set (zip [''GeneX''] [''GeneY'']))) \<and>
          set (nbrs graph g) =
            {v. (g, v) \<in> set (zip [''GeneX''] [''GeneY'']) \<or>
                (v, g) \<in> set (zip [''GeneX''] [''GeneY''])} \<and>
          distinct (nbrs graph g) \<and>
          degree graph g =
            card {v. (g, v) \<in> set (zip [''GeneX''] [''GeneY'']) \<or>
                     (v, g) \<in> set (zip [''GeneX''] [''GeneY''])} +
            (if (g, g) \<in> set (zip [''GeneX''] [''GeneY'']) then 1 else 0)"
    by blast
  from lg example_load_graph have eq: "graph = example_graph" by simp
  from gr [of "''GeneX''"] have x: "contains example_graph ''GeneX''"
    "set (nbrs example_graph ''GeneX'') = {''GeneY''}" "degree example_graph ''GeneX'' = 1"
    unfolding eq by auto
  from gr [of "''GeneY''"] have y: "contains example_graph ''GeneY''"
    unfolding eq by simp
  from gr [of "''7''"] have z: "\<not> contains example_graph ''7''"
    unfolding eq by simp
  from pre3 have e3: "edge_csv example_files (pathway_fname ''PathwayA'') = Some ?wide"
    by simp
  from no_sink_edges h missing_row_parse(2) read_data_Nil [of no_sink_files] a b m c
    e3 example_load_graph x y z
  show ?thesis by simp
qed

text \<open>
  C3.  For the input directory \<open>x/y/PathwayA/GeneX/Study1/1/z\<close>, an edge list
  \<open>PathwayA.csv\<close> whose columns source and sink hold the single edge GeneX, GeneY, and a
  control and a mutant count file that each hold the row GeneX = 1, 2, 3, \<open>read_data\<close>
  returns exactly three records: pathway\_degree with value 1, expression\_count\_mean with
  value 2 and expression\_count\_std with value \<open>sqrt (4 / 5)\<close>, about 0.894.  The mean
  and the sample standard deviation are taken over the six cells 1, 2, 3, 1, 2, 3 of the
  concatenated row, not over the three cells of one file, whose standard deviation is 1.
\<close>

theorem scenario_three_records:
  assumes "edge_csv fs ''results/pathways/csv_files/PathwayA.csv'' = Some edges"
    and "map_of edges ''source'' = Some [''GeneX'']"
    and "map_of edges ''sink'' = Some [''GeneY'']"
    and "count_csv fs ''resources/data/Study1/Counts_Ctrl_1.csv'' = Some wt"
    and "tab_rows wt ''GeneX'' = Some [Some 1, Some 2, Some 3]"
    and "count_csv fs ''resources/data/Study1/Counts_GeneX_1.csv'' = Some mt"
    and "tab_rows mt ''GeneX'' = Some [Some 1, Some 2, Some 3]"
  shows "read_data fs [''x/y/PathwayA/GeneX/Study1/1/z''] =
     Inr \<lparr>df_columns = [''type'', ''gene'', ''source'', ''value''],
          df_records =
            [\<lparr>rec_type = ''pathway_degree'', rec_gene = ''GeneX'',
              rec_source = ''PathwayA -- GeneX'', rec_value = Some 1\<rparr>,
             \<lparr>rec_type = ''expression_count_mean'', rec_gene = ''GeneX'',
              rec_source = ''1 -- GeneX'', rec_value = Some 2\<rparr>,
             \<lparr>rec_type = ''expression_count_std'', rec_gene = ''GeneX'',
              rec_source = ''1 -- GeneX'', rec_value = Some (sqrt (4 / 5))\<rparr>]\<rparr>"
proof -
  have lg: "load_graph fs ''PathwayA'' = Inr example_graph"
    using assms(1-3)
    by (simp add: load_graph_def read_csv_def pathway_fname_def from_pandas_edgelist_def
        getitem_def add_edges_from_def add_edge_def nbrs_def example_graph_def)
  have lc: "load_counts fs ''Study1'' ''GeneX'' ''1'' = Inr (concat_axis1 wt mt)"
    using assms(4,6)
    by (simp add: load_counts_def read_csv_index_def data_wt_fname_def data_mt_fname_def)
  have row: "tab_rows (concat_axis1 wt mt) ''GeneX'' =
      Some [Some 1, Some 2, Some 3, Some 1, Some 2, Some 3]"
    using assms(5,7) by (simp add: concat_axis1_def)
  have "dir_records fs ''x/y/PathwayA/GeneX/Study1/1/z'' =
      Inr [\<lparr>rec_type = ''pathway_degree'', rec_gene = ''GeneX'',
              rec_source = ''PathwayA -- GeneX'', rec_value = Some 1\<rparr>,
             \<lparr>rec_type = ''expression_count_mean'', rec_gene = ''GeneX'',
              rec_source = ''1 -- GeneX'', rec_value = Some 2\<rparr>,
             \<lparr>rec_type = ''expression_count_std'', rec_gene = ''GeneX'',
              rec_source = ''1 -- GeneX'', rec_value = Some (sqrt (4 / 5))\<rparr>]"
    using missing_row_parse(2)
    by (simp add: dir_records_eq scenario_dir_def lg lc scenario_split row gene_triple_def
        degree_record_def mean_record_def std_record_def scenario_degree scenario_stats
        del: split.simps)
  then show ?thesis
    by (simp add: read_data_def dir_loop_Cons DataFrame_def del: dir_loop.simps(2))
qed

theorem scenario_three_records_witness:
  "edge_csv scenario_files ''results/pathways/csv_files/PathwayA.csv'' =
     Some [(''source'', [''GeneX'']), (''sink'', [''GeneY''])] \<and>
   map_of [(''source'', [''GeneX'']), (''sink'', [''GeneY''])] ''source'' = Some [''GeneX''] \<and>
   map_of [(''source'', [''GeneX'']), (''sink'', [''GeneY''])] ''sink'' = Some [''GeneY''] \<and>
   count_csv scenario_files ''resources/data/Study1/Counts_Ctrl_1.csv'' = Some scenario_counts \<and>
   count_csv scenario_files ''resources/data/Study1/Counts_GeneX_1.csv'' = Some scenario_counts \<and>
   tab_rows scenario_counts ''GeneX'' = Some [Some 1, Some 2, Some 3] \<and>
   read_data scenario_files [''x/y/PathwayA/GeneX/Study1/1/z''] =
     Inr \<lparr>df_columns = [''type'', ''gene'', ''source'', ''value''],
          df_records =
            [\<lparr>rec_type = ''pathway_degree'', rec_gene = ''GeneX'',
              rec_source = ''PathwayA -- GeneX'', rec_value = Some 1\<rparr>,
             \<lparr>rec_type = ''expression_count_mean'', rec_gene = ''GeneX'',
              rec_source = ''1 -- GeneX'', rec_value = Some 2\<rparr>,
             \<lparr>rec_type = ''expression_count_std'', rec_gene = ''GeneX'',
              rec_source = ''1 -- GeneX'', rec_value = Some (sqrt (4 / 5))\<rparr>]\<rparr>"
proof -
  have e: "edge_csv scenario_files ''results/pathways/csv_files/PathwayA.csv'' =
      Some [(''source'', [''GeneX'']), (''sink'', [''GeneY''])]"
    by (simp add: scenario_files_def)
  have s: "map_of [(''source'', [''GeneX'']), (''sink'', [''GeneY''])] ''source'' =
      Some [''GeneX'']"
    and t: "map_of [(''source'', [''GeneX'']), (''sink'', [''GeneY''])] ''sink'' =
      Some [''GeneY'']"
    by simp_all
  have w: "count_csv scenario_files ''resources/data/Study1/Counts_Ctrl_1.csv'' =
      Some scenario_counts"
    and m: "count_csv scenario_files ''resources/data/Study1/Counts_GeneX_1.csv'' =
      Some scenario_counts"
    by (simp_all add: scenario_files_def)
  have r: "tab_rows scenario_counts ''GeneX'' = Some [Some 1, Some 2, Some 3]"
    by (simp add: scenario_counts_def)
  from scenario_three_records [OF e s t w r m r] e s t w m r show ?thesis by simp
qed

theorem scenario_std_counterexample:
  "read_data scenario_files [''x/y/PathwayA/GeneX/Study1/1/z''] \<noteq>
     Inr \<lparr>df_columns = [''type'', ''gene'', ''source'', ''value''],
          df_records =
            [\<lparr>rec_type = ''pathway_degree'', rec_gene = ''GeneX'',
              rec_source = ''PathwayA -- GeneX'', rec_value = Some 1\<rparr>,
             \<lparr>rec_type = ''expression_count_mean'', rec_gene = ''GeneX'',
              rec_source = ''1 -- GeneX'', rec_value = Some 2\<rparr>,
             \<lparr>rec_type = ''expression_count_std'', rec_gene = ''GeneX'',
              rec_source = ''1 -- GeneX'', rec_value = Some 1\<rparr>]\<rparr>"
  by (simp add: scenario_read_data)

text \<open>
  C7.  When at least one input directory is given, the CSV that \<open>main\<close> writes is
  written at \<open>fname\<close>, its header is exactly type, gene, source, value in that order,
  and each line holds exactly the four cells of one record of the table in that order, with
  no index cell; and \<open>main\<close> does write it whenever \<open>read_data\<close> returns and neither the
  creation of the output directory nor the write itself fails.
\<close>

theorem csv_columns_without_index:
  assumes "dir_list \<noteq> []"
  shows "(\<forall>f c. WriteCsv f c \<in> set (fst (main e fs dir_list fname out_dir)) \<longrightarrow>
            f = fname \<and>
            csv_header c = [''type'', ''gene'', ''source'', ''value''] \<and>
            (\<exists>df. read_data fs dir_list = Inr df \<and>
               csv_lines c =
                 map (\<lambda>r. [S (rec_type r), S (rec_gene r), S (rec_source r), F (rec_value r)])
                   (df_records df))) \<and>
         (\<forall>df. read_data fs dir_list = Inr df \<and> mkdir_error e = None \<and>
               to_csv_error e = None \<longrightarrow>
            WriteCsv fname (to_csv df False) \<in> set (fst (main e fs dir_list fname out_dir)))"
proof -
  have first: "f = fname \<and>
      csv_header c = [''type'', ''gene'', ''source'', ''value''] \<and>
      (\<exists>df. read_data fs dir_list = Inr df \<and>
         csv_lines c =
           map (\<lambda>r. [S (rec_type r), S (rec_gene r), S (rec_source r), F (rec_value r)])
             (df_records df))"
    if "WriteCsv f c \<in> set (fst (main e fs dir_list fname out_dir))" for f c
  proof -
    from main_WriteCsv [OF that] obtain df where
      f: "f = fname" and df: "read_data fs dir_list = Inr df" and c: "c = to_csv df False"
      by blast
    from read_data_nonempty(2) [OF assms df] have
      "to_csv df False =
         \<lparr>csv_header = [''type'', ''gene'', ''source'', ''value''],
          csv_lines =
            map (\<lambda>r. [S (rec_type r), S (rec_gene r), S (rec_source r), F (rec_value r)])
              (df_records df)\<rparr>"
      by (rule to_csv_four_columns)
    with c have "csv_header c = [''type'', ''gene'', ''source'', ''value'']"
      "csv_lines c =
         map (\<lambda>r. [S (rec_type r), S (rec_gene r), S (rec_source r), F (rec_value r)])
           (df_records df)"
      by simp_all
    with f df show ?thesis by blast
  qed
  have second: "WriteCsv fname (to_csv df False) \<in> set (fst (main e fs dir_list fname out_dir))"
    if a: "read_data fs dir_list = Inr df \<and> mkdir_error e = None \<and> to_csv_error e = None"
    for df
  proof -
    obtain evs res where
      pl: "plot_loop e df (plot_paths out_dir)
             [Mkdir out_dir, WriteCsv fname (to_csv df False)] = (evs, res)"
      by (cases "plot_loop e df (plot_paths out_dir)
             [Mkdir out_dir, WriteCsv fname (to_csv df False)]")
    with a have "fst (main e fs dir_list fname out_dir) = evs" by (simp add: main_def)
    with plot_loop_keeps [OF pl] show ?thesis by auto
  qed
  from first second show ?thesis by blast
qed

theorem csv_columns_without_index_witness:
  "[scenario_dir] \<noteq> [] \<and>
   WriteCsv ''out.csv'' (to_csv scenario_table False)
     \<in> set (fst (main no_failures scenario_files [scenario_dir] ''out.csv'' ''plots'')) \<and>
   csv_header (to_csv scenario_table False) = [''type'', ''gene'', ''source'', ''value''] \<and>
   csv_lines (to_csv scenario_table False) =
     [[S ''pathway_degree'', S ''GeneX'', S ''PathwayA -- GeneX'', F (Some 1)],
      [S ''expression_count_mean'', S ''GeneX'', S ''1 -- GeneX'', F (Some 2)],
      [S ''expression_count_std'', S ''GeneX'', S ''1 -- GeneX'', F (Some (sqrt (4 / 5)))]]"
proof -
  have ne: "[scenario_dir] \<noteq> []" by simp
  have mem: "WriteCsv ''out.csv'' (to_csv scenario_table False)
     \<in> set (fst (main no_failures scenario_files [scenario_dir] ''out.csv'' ''plots''))"
    by (simp add: scenario_main)
  from csv_columns_without_index [OF ne, THEN conjunct1, rule_format, OF mem]
  have "csv_header (to_csv scenario_table False) = [''type'', ''gene'', ''source'', ''value'']"
    and "\<exists>df. read_data scenario_files [scenario_dir] = Inr df \<and>
       csv_lines (to_csv scenario_table False) =
         map (\<lambda>r. [S (rec_type r), S (rec_gene r), S (rec_source r), F (rec_value r)])
           (df_records df)"
    by simp_all
  then have "csv_header (to_csv scenario_table False) =
      [''type'', ''gene'', ''source'', ''value'']"
    and "csv_lines (to_csv scenario_table False) =
     [[S ''pathway_degree'', S ''GeneX'', S ''PathwayA -- GeneX'', F (Some 1)],
      [S ''expression_count_mean'', S ''GeneX'', S ''1 -- GeneX'', F (Some 2)],
      [S ''expression_count_std'', S ''GeneX'', S ''1 -- GeneX'', F (Some (sqrt (4 / 5)))]]"
    by (simp_all add: scenario_read_data_table scenario_table_def)
  with ne mem show ?thesis by blast
qed

theorem csv_columns_empty_counterexample:
  "main no_failures scenario_files [] ''out.csv'' ''plots'' =
     ([Mkdir ''plots'', WriteCsv ''out.csv'' \<lparr>csv_header = [], csv_lines = []\<rparr>],
      Some KeyError)"
  by (rule main_no_dirs)

text \<open>
  C8.  In every run of \<open>main\<close> the output files appear in this order: the CSV first,
  then the figures.  So either no output file is written and the run has failed (before
  the CSV write), or the CSV holds the table of \<open>read_data\<close> and is followed by the first
  \<open>k\<close> of the three figures, where \<open>k < 3\<close> exactly when the run has failed (at a
  plotting stage).  Both kinds of state occur: some environment leaves nothing written,
  and for a table with a type column and every \<open>k \<le> 3\<close> some environment leaves the CSV
  and exactly the first \<open>k\<close> figures.
\<close>

theorem csv_written_before_plots:
  "(\<forall>evs res. main e fs dir_list fname out_dir = (evs, res) \<longrightarrow>
      (written evs = [] \<and> res \<noteq> None) \<or>
      (\<exists>df k. read_data fs dir_list = Inr df \<and> k \<le> 3 \<and>
         written evs =
           WriteCsv fname (to_csv df False) # map SaveFig (take k (plot_paths out_dir)) \<and>
         (res = None \<longleftrightarrow> k = 3))) \<and>
   (\<exists>e'. written (fst (main e' fs dir_list fname out_dir)) = [] \<and>
      snd (main e' fs dir_list fname out_dir) \<noteq> None) \<and>
   (\<forall>df k. read_data fs dir_list = Inr df \<and> ''type'' \<in> set (df_columns df) \<and> k \<le> 3 \<longrightarrow>
      (\<exists>e'. written (fst (main e' fs dir_list fname out_dir)) =
              WriteCsv fname (to_csv df False) # map SaveFig (take k (plot_paths out_dir)) \<and>
            (snd (main e' fs dir_list fname out_dir) = None \<longleftrightarrow> k = 3)))"
proof -
  have shape: "\<forall>evs res. main e fs dir_list fname out_dir = (evs, res) \<longrightarrow>
      (written evs = [] \<and> res \<noteq> None) \<or>
      (\<exists>df k. read_data fs dir_list = Inr df \<and> k \<le> 3 \<and>
         written evs =
           WriteCsv fname (to_csv df False) # map SaveFig (take k (plot_paths out_dir)) \<and>
         (res = None \<longleftrightarrow> k = 3))"
  proof (intro allI impI)
    fix evs res
    assume m: "main e fs dir_list fname out_dir = (evs, res)"
    let ?thesis = "(written evs = [] \<and> res \<noteq> None) \<or>
      (\<exists>df k. read_data fs dir_list = Inr df \<and> k \<le> 3 \<and>
         written evs =
           WriteCsv fname (to_csv df False) # map SaveFig (take k (plot_paths out_dir)) \<and>
         (res = None \<longleftrightarrow> k = 3))"
    from main_events [OF m] show ?thesis
    proof
      assume "written evs = [] \<and> res \<noteq> None"
      then show ?thesis by simp
    next
      assume "\<exists>df k. read_data fs dir_list = Inr df \<and> k \<le> 3 \<and>
          evs = Mkdir out_dir # WriteCsv fname (to_csv df False) #
                  map SaveFig (take k (plot_paths out_dir)) \<and>
          (res = None \<longleftrightarrow> k = 3)"
      then obtain df k where "read_data fs dir_list = Inr df" "k \<le> 3"
        "evs = Mkdir out_dir # WriteCsv fname (to_csv df False) #
                 map SaveFig (take k (plot_paths out_dir))"
        "res = None \<longleftrightarrow> k = 3"
        by blast
      then have "read_data fs dir_list = Inr df \<and> k \<le> 3 \<and>
          written evs =
            WriteCsv fname (to_csv df False) # map SaveFig (take k (plot_paths out_dir)) \<and>
          (res = None \<longleftrightarrow> k = 3)"
        by (simp add: written_SaveFig)
      then show ?thesis by blast
    qed
  qed
  have none_written: "\<exists>e'. written (fst (main e' fs dir_list fname out_dir)) = [] \<and>
      snd (main e' fs dir_list fname out_dir) \<noteq> None"
    by (rule exI [of _ "\<lparr>mkdir_error = Some OSError, to_csv_error = None,
          savefig_error = (\<lambda>path. None)\<rparr>"]) (simp add: main_mkdir_fails)
  have partial: "\<forall>df k.
      read_data fs dir_list = Inr df \<and> ''type'' \<in> set (df_columns df) \<and> k \<le> 3 \<longrightarrow>
      (\<exists>e'. written (fst (main e' fs dir_list fname out_dir)) =
              WriteCsv fname (to_csv df False) # map SaveFig (take k (plot_paths out_dir)) \<and>
            (snd (main e' fs dir_list fname out_dir) = None \<longleftrightarrow> k = 3))"
  proof (intro allI impI)
    fix df :: dataframe and k :: nat
    assume a: "read_data fs dir_list = Inr df \<and> ''type'' \<in> set (df_columns df) \<and> k \<le> 3"
    let ?thesis = "\<exists>e'. written (fst (main e' fs dir_list fname out_dir)) =
        WriteCsv fname (to_csv df False) # map SaveFig (take k (plot_paths out_dir)) \<and>
      (snd (main e' fs dir_list fname out_dir) = None \<longleftrightarrow> k = 3)"
    from a have "read_data fs dir_list = Inr df" "''type'' \<in> set (df_columns df)" "k \<le> 3"
      by simp_all
    note main_first_plots [OF this, of out_dir fname]
    then show ?thesis
      by (intro exI [of _ "\<lparr>mkdir_error = None, to_csv_error = None,
            savefig_error = (\<lambda>path. if path \<in> set (take k (plot_paths out_dir)) then None
                                    else Some OSError)\<rparr>"])
        (simp add: written_SaveFig)
  qed
  from shape none_written partial show ?thesis by (intro conjI)
qed

theorem csv_written_before_plots_witness:
  "main second_plot_fails scenario_files [scenario_dir] ''out.csv'' ''plots'' =
     ([Mkdir ''plots'', WriteCsv ''out.csv'' (to_csv scenario_table False),
       SaveFig ''plots/degrees.pdf''], Some OSError) \<and>
   read_data scenario_files [scenario_dir] = Inr scenario_table \<and>
   written [Mkdir ''plots'', WriteCsv ''out.csv'' (to_csv scenario_table False),
            SaveFig ''plots/degrees.pdf''] =
     WriteCsv ''out.csv'' (to_csv scenario_table False) #
       map SaveFig (take 1 (plot_paths ''plots''))"
proof -
  note t = csv_written_before_plots [of second_plot_fails scenario_files "[scenario_dir]"
      "''out.csv''" "''plots''", THEN conjunct1, rule_format, OF second_plot_fails_main]
  have w: "written [Mkdir ''plots'', WriteCsv ''out.csv'' (to_csv scenario_table False),
            SaveFig ''plots/degrees.pdf''] =
     WriteCsv ''out.csv'' (to_csv scenario_table False) #
       map SaveFig (take 1 (plot_paths ''plots''))"
    by (simp add: plot_paths_def)
  from t w second_plot_fails_main scenario_read_data_table show ?thesis
    by (simp add: written_SaveFig)
qed

end
